theory Spec2Isabelle
  imports Main "HOL-Library.Option_ord" "HOL-Library.Multiset"
begin

section \<open>Data model\<close>

text \<open>
  The stored procedures of \<^verbatim>\<open>supabase/migrations/20250617131830_sweet_frog.sql\<close> and
  \<^verbatim>\<open>20250616110333_dry_wave.sql\<close> work on relational tables. A table is a list of rows
  in its stored order; a query without \<^verbatim>\<open>ORDER BY\<close> returns the rows in that order, and
  \<^verbatim>\<open>ORDER BY\<close> sorts what it is handed, keeping rows of equal key in the order they
  came. \<^verbatim>\<open>SELECT ... INTO\<close> and \<^verbatim>\<open>LIMIT 1\<close> take the first row. For a table that the
  procedures only read, the order of the list stands for the choices SQL leaves open. The
  two \<^verbatim>\<open>ROW_NUMBER()\<close> queries of the finalizer read tables that the finalizer has just
  written, and their \<^verbatim>\<open>ORDER BY\<close> names no tie-break: there the order in which the engine
  hands the rows to the sort is a parameter of the model (\<open>row_orders\<close>).

  Identifiers (\<^verbatim>\<open>UUID\<close>) are natural numbers, \<^verbatim>\<open>TEXT\<close> is \<open>string\<close>, a timestamp is a
  number of microseconds. \<^verbatim>\<open>INTEGER\<close> is \<open>int\<close>: the range of a 32-bit column, beyond
  which PostgreSQL raises an error, is not modelled. A column is an \<open>option\<close> where the
  procedures themselves provide for \<^verbatim>\<open>NULL\<close> (\<^verbatim>\<open>COALESCE\<close>, \<^verbatim>\<open>IS NOT NULL\<close>) and for the
  points, the rank and the flags that the migrations declare without \<^verbatim>\<open>NOT NULL\<close>. The
  key and flag columns of the tables whose definition is not part of the migrations
  (\<open>rosters\<close>, \<open>players\<close>, \<open>gameweek_scores\<close>, \<open>fantasy_teams\<close>, \<open>real_matches\<close>) are
  taken as \<^verbatim>\<open>NOT NULL\<close>. A points record without a team satisfies no condition of any
  procedure and is left out of its table; the status of a gameweek is only ever written
  with one of its four values and is a string. The \<open>created_at\<close> columns, which no
  procedure reads, are left out.
\<close>

type_synonym uuid = nat
type_synonym timestamp = int

record roster =
  r_fantasy_team_id :: uuid
  r_player_id :: uuid
  is_starter :: bool
  is_captain :: bool
  is_vice_captain :: bool

record player =
  p_player_id :: uuid
  position :: string

record gameweek_score =
  gs_player_id :: uuid
  gs_gameweek :: int
  total_points :: "int option"
  minutes_played :: "int option"

record fantasy_team =
  fantasy_team_id :: uuid
  league_id :: "uuid option"
  ft_total_points :: int
  gameweek_points :: int
  ft_rank :: int

record team_gameweek_points =
  tgp_fantasy_team_id :: uuid
  tgp_gameweek :: int
  points :: "int option"
  rank_in_league :: "int option"

record gameweek =
  gameweek_id :: int
  gameweek_number :: int
  start_date :: int
  end_date :: int
  status :: string

record real_match =
  rm_gameweek :: int
  match_date :: "timestamp option"
  rm_status :: string

record database =
  rosters :: "roster list"
  players :: "player list"
  gameweek_scores :: "gameweek_score list"
  fantasy_teams :: "fantasy_team list"
  fantasy_team_gameweek_points :: "team_gameweek_points list"
  gameweeks :: "gameweek list"
  gameweeks_seq :: int
  real_matches :: "real_match list"

text \<open>\<^verbatim>\<open>COALESCE(x, d)\<close> with a non-null default.\<close>

definition coalesce :: "'a option \<Rightarrow> 'a \<Rightarrow> 'a" where
  "coalesce x d = (case x of None \<Rightarrow> d | Some v \<Rightarrow> v)"

text \<open>
  The sort key of \<^verbatim>\<open>ORDER BY c DESC\<close> on a nullable integer column: PostgreSQL puts
  \<^verbatim>\<open>NULL\<close> first in descending order. In the order on \<open>option\<close>, \<open>None\<close> is least.
\<close>

definition desc_key :: "int option \<Rightarrow> int option" where
  "desc_key x = (case x of None \<Rightarrow> None | Some v \<Rightarrow> Some (- v))"

section \<open>Queries\<close>

text \<open>
  \<^verbatim>\<open>a JOIN b ON c\<close> and \<^verbatim>\<open>a LEFT JOIN b ON c\<close>, row by row in the stored order. In a left
  join a row of \<open>a\<close> without a partner is kept once, with \<^verbatim>\<open>NULL\<close>s for \<open>b\<close>.
\<close>

definition inner_join :: "'a list \<Rightarrow> 'b list \<Rightarrow> ('a \<Rightarrow> 'b \<Rightarrow> bool) \<Rightarrow> ('a \<times> 'b) list" where
  "inner_join xs ys c = concat (map (\<lambda>x. map (Pair x) (filter (c x) ys)) xs)"

definition left_join :: "'a list \<Rightarrow> 'b list \<Rightarrow> ('a \<Rightarrow> 'b \<Rightarrow> bool) \<Rightarrow> ('a \<times> 'b option) list" where
  "left_join xs ys c =
     concat (map (\<lambda>x. if filter (c x) ys = [] then [(x, None)]
                       else map (\<lambda>y. (x, Some y)) (filter (c x) ys)) xs)"

section \<open>Scoring engine\<close>

subsection \<open>\<^verbatim>\<open>get_auto_substitute\<close>\<close>

text \<open>
  The rows of \<^verbatim>\<open>rosters r JOIN gameweek_scores gs JOIN players p\<close> that pass the
  \<^verbatim>\<open>WHERE\<close> clause: bench rows of the team, of the position asked for, with a score row
  of the gameweek whose minutes are positive.
\<close>

definition bench_candidates ::
  "database \<Rightarrow> uuid \<Rightarrow> int \<Rightarrow> string \<Rightarrow> ((roster \<times> gameweek_score) \<times> player) list" where
  "bench_candidates db p_fantasy_team_id p_gameweek p_position =
     filter (\<lambda>((r, gs), p).
               r_fantasy_team_id r = p_fantasy_team_id \<and> is_starter r = False
               \<and> position p = p_position \<and> gs_gameweek gs = p_gameweek
               \<and> coalesce (minutes_played gs) 0 > 0)
       (inner_join
          (inner_join (rosters db) (gameweek_scores db)
             (\<lambda>r gs. r_player_id r = gs_player_id gs))
          (players db) (\<lambda>(r, gs) p. r_player_id r = p_player_id p))"

definition get_auto_substitute :: "database \<Rightarrow> uuid \<Rightarrow> int \<Rightarrow> string \<Rightarrow> uuid option" where
  "get_auto_substitute db p_fantasy_team_id p_gameweek p_position =
     (case sort_key (\<lambda>((r, gs), p). desc_key (total_points gs))
             (bench_candidates db p_fantasy_team_id p_gameweek p_position) of
        [] \<Rightarrow> None
      | ((r, gs), p) # _ \<Rightarrow> Some (r_player_id r))"

subsection \<open>\<^verbatim>\<open>calculate_fantasy_team_points\<close>\<close>

definition captain_id :: "database \<Rightarrow> uuid \<Rightarrow> uuid option" where
  "captain_id db p_fantasy_team_id =
     (case [r \<leftarrow> rosters db. r_fantasy_team_id r = p_fantasy_team_id \<and> is_captain r] of
        [] \<Rightarrow> None
      | r # _ \<Rightarrow> Some (r_player_id r))"

definition vice_captain_id :: "database \<Rightarrow> uuid \<Rightarrow> uuid option" where
  "vice_captain_id db p_fantasy_team_id =
     (case [r \<leftarrow> rosters db. r_fantasy_team_id r = p_fantasy_team_id \<and> is_vice_captain r] of
        [] \<Rightarrow> None
      | r # _ \<Rightarrow> Some (r_player_id r))"

text \<open>The record the loop runs over: one row of the starters query.\<close>

record player_record =
  player_id :: uuid
  pr_is_captain :: bool
  pr_is_vice_captain :: bool
  pr_position :: string
  player_points :: int
  pr_minutes_played :: int

definition starter_rows :: "database \<Rightarrow> uuid \<Rightarrow> int \<Rightarrow> player_record list" where
  "starter_rows db p_fantasy_team_id p_gameweek =
     map (\<lambda>((r, p), gs).
            \<lparr> player_id = r_player_id r,
              pr_is_captain = is_captain r,
              pr_is_vice_captain = is_vice_captain r,
              pr_position = position p,
              player_points = coalesce (Option.bind gs total_points) 0,
              pr_minutes_played = coalesce (Option.bind gs minutes_played) 0 \<rparr>)
       (filter (\<lambda>((r, p), gs). r_fantasy_team_id r = p_fantasy_team_id \<and> is_starter r = True)
          (left_join
             (inner_join (rosters db) (players db) (\<lambda>r p. r_player_id r = p_player_id p))
             (gameweek_scores db)
             (\<lambda>(r, p) gs. r_player_id r = gs_player_id gs \<and> gs_gameweek gs = p_gameweek)))"

text \<open>
  \<^verbatim>\<open>SELECT COALESCE(gs.total_points, 0) INTO player_record.player_points FROM
  gameweek_scores gs WHERE gs.player_id = substitute_id AND gs.gameweek = p_gameweek\<close>.
  The query has a row whenever \<open>substitute_id\<close> comes from \<open>get_auto_substitute\<close>
  (lemma \<open>substitute_has_score\<close> below), so the value given for no row is never used.
\<close>

definition substitute_points :: "database \<Rightarrow> uuid \<Rightarrow> int \<Rightarrow> int" where
  "substitute_points db substitute_id p_gameweek =
     (case [gs \<leftarrow> gameweek_scores db.
              gs_player_id gs = substitute_id \<and> gs_gameweek gs = p_gameweek] of
        [] \<Rightarrow> 0
      | gs # _ \<Rightarrow> coalesce (total_points gs) 0)"

text \<open>The value of \<open>player_record.player_points\<close> after the substitution check.\<close>

definition substituted_points :: "database \<Rightarrow> uuid \<Rightarrow> int \<Rightarrow> player_record \<Rightarrow> int" where
  "substituted_points db p_fantasy_team_id p_gameweek row =
     (if pr_minutes_played row = 0 then
        (case get_auto_substitute db p_fantasy_team_id p_gameweek (pr_position row) of
           None \<Rightarrow> player_points row
         | Some substitute_id \<Rightarrow> substitute_points db substitute_id p_gameweek)
      else player_points row)"

text \<open>
  One pass of the loop body on the variables \<open>(total_points, captain_points,
  vice_captain_points)\<close> (\<open>tot\<close> is the procedure's \<open>total_points\<close>). A \<^verbatim>\<open>NULL\<close> captain makes the comparison not true, as in SQL.
\<close>

definition loop_body ::
  "database \<Rightarrow> uuid \<Rightarrow> int \<Rightarrow> uuid option \<Rightarrow> uuid option \<Rightarrow>
     int \<times> int \<times> int \<Rightarrow> player_record \<Rightarrow> int \<times> int \<times> int" where
  "loop_body db p_fantasy_team_id p_gameweek cid vid vars row =
     (case vars of (tot, captain_points, vice_captain_points) \<Rightarrow>
        let pts = substituted_points db p_fantasy_team_id p_gameweek row;
            tot' = tot + pts
        in if Some (player_id row) = cid then (tot', pts, vice_captain_points)
           else if Some (player_id row) = vid then (tot', captain_points, pts)
           else (tot', captain_points, vice_captain_points))"

definition calculate_fantasy_team_points :: "database \<Rightarrow> uuid \<Rightarrow> int \<Rightarrow> int" where
  "calculate_fantasy_team_points db p_fantasy_team_id p_gameweek =
     (case foldl (loop_body db p_fantasy_team_id p_gameweek
                    (captain_id db p_fantasy_team_id) (vice_captain_id db p_fantasy_team_id))
                 (0, 0, 0) (starter_rows db p_fantasy_team_id p_gameweek) of
        (tot, captain_points, vice_captain_points) \<Rightarrow>
          if captain_points > 0 then tot + captain_points
          else if vice_captain_points > 0 then tot + vice_captain_points
          else tot)"

section \<open>Gameweek finalizer\<close>

text \<open>
  A procedure that can raise returns the tables together with the error, if any.
  \<^verbatim>\<open>RAISE EXCEPTION\<close> aborts the call and PostgreSQL undoes what the call wrote, so a
  failed call returns the tables it was given.
\<close>

datatype error =
    Gameweek_does_not_exist int
  | Invalid_status string
  | Gameweek_not_found int

text \<open>
  \<^verbatim>\<open>INSERT INTO fantasy_team_gameweek_points (fantasy_team_id, gameweek, points) VALUES
  (...) ON CONFLICT (fantasy_team_id, gameweek) DO UPDATE SET points = EXCLUDED.points\<close>.
  A new row has no rank yet.
\<close>

definition upsert_gameweek_points ::
  "team_gameweek_points list \<Rightarrow> uuid \<Rightarrow> int \<Rightarrow> int \<Rightarrow> team_gameweek_points list" where
  "upsert_gameweek_points tbl team p_gameweek team_points =
     (if \<exists>row \<in> set tbl. tgp_fantasy_team_id row = team \<and> tgp_gameweek row = p_gameweek
      then map (\<lambda>row. if tgp_fantasy_team_id row = team \<and> tgp_gameweek row = p_gameweek
                       then row\<lparr>points := Some team_points\<rparr> else row) tbl
      else tbl @ [\<lparr> tgp_fantasy_team_id = team, tgp_gameweek = p_gameweek,
                    points = Some team_points, rank_in_league = None \<rparr>])"

text \<open>
  \<^verbatim>\<open>UPDATE fantasy_teams SET total_points = total_points + team_points,
  gameweek_points = team_points WHERE fantasy_team_id = team_record.fantasy_team_id\<close>.
\<close>

definition add_team_points :: "fantasy_team list \<Rightarrow> uuid \<Rightarrow> int \<Rightarrow> fantasy_team list" where
  "add_team_points tbl team team_points =
     map (\<lambda>ft. if fantasy_team_id ft = team
                then ft\<lparr>ft_total_points := ft_total_points ft + team_points,
                        gameweek_points := team_points\<rparr>
                else ft) tbl"

text \<open>The first loop: its query, read when the loop starts, and its body.\<close>

definition league_team_ids :: "database \<Rightarrow> uuid list" where
  "league_team_ids db = map fantasy_team_id (filter (\<lambda>ft. league_id ft \<noteq> None) (fantasy_teams db))"

definition team_step :: "int \<Rightarrow> database \<Rightarrow> uuid \<Rightarrow> database" where
  "team_step p_gameweek db team =
     (let team_points = calculate_fantasy_team_points db team p_gameweek
      in db\<lparr>fantasy_team_gameweek_points :=
               upsert_gameweek_points (fantasy_team_gameweek_points db) team p_gameweek team_points,
            fantasy_teams := add_team_points (fantasy_teams db) team team_points\<rparr>)"

text \<open>
  The order in which the engine hands the rows of a query to \<^verbatim>\<open>ROW_NUMBER()\<close>, for the
  ranking of a gameweek and for the overall ranking. The code does not fix it; whatever
  the engine does, it hands over the rows of the query, each as often as it occurs
  (\<open>permuting\<close> below). Rows of equal points are numbered in that order.
\<close>

record row_orders =
  ranked_order ::
    "(team_gameweek_points \<times> fantasy_team) list \<Rightarrow> (team_gameweek_points \<times> fantasy_team) list"
  overall_order :: "fantasy_team list \<Rightarrow> fantasy_team list"

text \<open>
  \<open>ranked_teams\<close>: \<^verbatim>\<open>ROW_NUMBER() OVER (ORDER BY ftgp.points DESC)\<close> on the join of the
  points records of the gameweek with the teams of the league.
\<close>

definition ranked_teams :: "row_orders \<Rightarrow> database \<Rightarrow> uuid \<Rightarrow> int \<Rightarrow> (uuid \<times> int) list" where
  "ranked_teams ro db league p_gameweek =
     (let rows = sort_key (\<lambda>(ftgp, ft). desc_key (points ftgp))
                   (ranked_order ro
                      (filter (\<lambda>(ftgp, ft). league_id ft = Some league \<and> tgp_gameweek ftgp = p_gameweek)
                         (inner_join (fantasy_team_gameweek_points db) (fantasy_teams db)
                            (\<lambda>ftgp ft. tgp_fantasy_team_id ftgp = fantasy_team_id ft))))
      in zip (map (\<lambda>(ftgp, ft). tgp_fantasy_team_id ftgp) rows) [1 .. int (length rows)])"

text \<open>
  \<^verbatim>\<open>UPDATE fantasy_team_gameweek_points SET rank_in_league = ranked_teams.rank FROM
  ranked_teams WHERE fantasy_team_id = ranked_teams.fantasy_team_id AND gameweek =
  p_gameweek\<close>; a row with several partners takes the first.
\<close>

definition update_rank_in_league ::
  "team_gameweek_points list \<Rightarrow> (uuid \<times> int) list \<Rightarrow> int \<Rightarrow> team_gameweek_points list" where
  "update_rank_in_league tbl ranked p_gameweek =
     map (\<lambda>row. if tgp_gameweek row = p_gameweek
                 then (case map_of ranked (tgp_fantasy_team_id row) of
                         None \<Rightarrow> row
                       | Some rk \<Rightarrow> row\<lparr>rank_in_league := Some rk\<rparr>)
                 else row) tbl"

definition overall_ranked :: "row_orders \<Rightarrow> database \<Rightarrow> uuid \<Rightarrow> (uuid \<times> int) list" where
  "overall_ranked ro db league =
     (let rows = sort_key (\<lambda>ft. - ft_total_points ft)
                   (overall_order ro [ft \<leftarrow> fantasy_teams db. league_id ft = Some league])
      in zip (map fantasy_team_id rows) [1 .. int (length rows)])"

definition update_rank :: "fantasy_team list \<Rightarrow> (uuid \<times> int) list \<Rightarrow> fantasy_team list" where
  "update_rank tbl ranked =
     map (\<lambda>ft. case map_of ranked (fantasy_team_id ft) of
                  None \<Rightarrow> ft
                | Some rk \<Rightarrow> ft\<lparr>ft_rank := rk\<rparr>) tbl"

text \<open>The second loop: \<^verbatim>\<open>SELECT DISTINCT league_id FROM fantasy_teams WHERE league_id IS NOT NULL\<close>.\<close>

definition league_ids :: "database \<Rightarrow> uuid list" where
  "league_ids db =
     remdups (map (\<lambda>ft. the (league_id ft)) (filter (\<lambda>ft. league_id ft \<noteq> None) (fantasy_teams db)))"

definition league_step :: "row_orders \<Rightarrow> int \<Rightarrow> database \<Rightarrow> uuid \<Rightarrow> database" where
  "league_step ro p_gameweek db league =
     (let db1 = db\<lparr>fantasy_team_gameweek_points :=
                     update_rank_in_league (fantasy_team_gameweek_points db)
                       (ranked_teams ro db league p_gameweek) p_gameweek\<rparr>
      in db1\<lparr>fantasy_teams := update_rank (fantasy_teams db1) (overall_ranked ro db1 league)\<rparr>)"

definition mark_status :: "gameweek list \<Rightarrow> int \<Rightarrow> string \<Rightarrow> gameweek list" where
  "mark_status tbl p_gameweek p_status =
     map (\<lambda>g. if gameweek_number g = p_gameweek then g\<lparr>status := p_status\<rparr> else g) tbl"

definition finalize_gameweek :: "row_orders \<Rightarrow> database \<Rightarrow> int \<Rightarrow> database \<times> error option" where
  "finalize_gameweek ro db p_gameweek =
     (if \<not> (\<exists>g \<in> set (gameweeks db). gameweek_number g = p_gameweek)
      then (db, Some (Gameweek_does_not_exist p_gameweek))
      else
        let db1 = foldl (team_step p_gameweek) db (league_team_ids db);
            db2 = foldl (league_step ro p_gameweek) db1 (league_ids db1);
            db3 = db2\<lparr>gameweeks := mark_status (gameweeks db2) p_gameweek ''finalized''\<rparr>
        in (db3, None))"

section \<open>Status and lifecycle\<close>

subsection \<open>\<^verbatim>\<open>set_gameweek_status\<close>\<close>

definition set_gameweek_status :: "database \<Rightarrow> int \<Rightarrow> string \<Rightarrow> database \<times> error option" where
  "set_gameweek_status db p_gameweek p_status =
     (if p_status \<notin> set [''upcoming'', ''active'', ''locked'', ''finalized'']
      then (db, Some (Invalid_status p_status))
      else
        let db1 = db\<lparr>gameweeks := mark_status (gameweeks db) p_gameweek p_status\<rparr>;
            found = (\<exists>g \<in> set (gameweeks db). gameweek_number g = p_gameweek)
        in if \<not> found then (db, Some (Gameweek_not_found p_gameweek))
           else (db1, None))"

text \<open>
  The action buttons that \<^verbatim>\<open>GameweekManager.tsx\<close> renders for the selected gameweek,
  from its status and from whether the statistics are loaded with every match completed.
\<close>

datatype console_action = Set_status string | Finalize

definition console_actions :: "string \<Rightarrow> bool \<Rightarrow> console_action list" where
  "console_actions st all_matches_completed =
     (if st = ''upcoming'' then [Set_status ''active''] else []) @
     (if st = ''active'' then [Set_status ''locked''] else []) @
     (if (st = ''locked'' \<or> st = ''active'') \<and> all_matches_completed then [Finalize] else []) @
     (if st \<noteq> ''finalized'' then [Set_status ''upcoming''] else [])"

subsection \<open>\<^verbatim>\<open>update_gameweek_status\<close>: the time-derived flags\<close>

text \<open>
  The \<^verbatim>\<open>gameweeks\<close> table of \<^verbatim>\<open>20250616110333_dry_wave.sql\<close>. \<open>now\<close> is the value of
  \<^verbatim>\<open>NOW()\<close>, which is fixed during a call.
\<close>

record gameweek_window =
  gw_number :: int
  deadline_time :: timestamp
  start_time :: timestamp
  end_time :: timestamp
  is_current :: "bool option"
  is_next :: "bool option"
  is_finished :: "bool option"

definition update_gameweek_status :: "timestamp \<Rightarrow> gameweek_window list \<Rightarrow> gameweek_window list" where
  "update_gameweek_status now tbl =
     (let t1 = map (\<lambda>g. g\<lparr>is_current := Some False, is_next := Some False\<rparr>) tbl;
          t2 = map (\<lambda>g. if now \<ge> start_time g \<and> now \<le> end_time g
                         then g\<lparr>is_current := Some True\<rparr> else g) t1;
          t3 = (case map gw_number (filter (\<lambda>g. start_time g > now) t2) of
                  [] \<Rightarrow> t2
                | n # ns \<Rightarrow> map (\<lambda>g. if gw_number g = fold min ns n
                                       then g\<lparr>is_next := Some True\<rparr> else g) t2)
      in map (\<lambda>g. if end_time g < now then g\<lparr>is_finished := Some True\<rparr> else g) t3)"

section \<open>Regeneration from match data\<close>

text \<open>\<^verbatim>\<open>DATE(match_date)\<close>: the day of a timestamp, in UTC.\<close>

definition DATE :: "timestamp \<Rightarrow> int" where
  "DATE ts = ts div 86400000000"

text \<open>
  The grouping query: one row (gameweek, start date, end date, status) for each gameweek
  number among the matches that have a date, in ascending order of the number.
\<close>

definition gameweek_groups :: "real_match list \<Rightarrow> (int \<times> int \<times> int \<times> string) list" where
  "gameweek_groups ms =
     (let dated = [m \<leftarrow> ms. match_date m \<noteq> None]
      in map (\<lambda>k. let grp = [m \<leftarrow> dated. rm_gameweek m = k];
                       days = map (\<lambda>m. DATE (the (match_date m))) grp
                   in (k, fold min (tl days) (hd days), fold max (tl days) (hd days),
                       if length grp = length [m \<leftarrow> grp. rm_status m = ''completed'']
                       then ''finalized'' else ''upcoming''))
           (sort (remdups (map rm_gameweek dated))))"

text \<open>The \<^verbatim>\<open>INSERT\<close> of the loop; \<^verbatim>\<open>gameweek_id SERIAL\<close> takes the next value of its sequence.\<close>

definition insert_gameweek :: "database \<Rightarrow> int \<times> int \<times> int \<times> string \<Rightarrow> database" where
  "insert_gameweek db gw_record =
     (case gw_record of (n, s, e, st) \<Rightarrow>
        db\<lparr>gameweeks := gameweeks db @
               [\<lparr> gameweek_id = gameweeks_seq db + 1, gameweek_number = n,
                  start_date = s, end_date = e, status = st \<rparr>],
           gameweeks_seq := gameweeks_seq db + 1\<rparr>)"

definition generate_gameweeks_from_matches :: "database \<Rightarrow> database" where
  "generate_gameweeks_from_matches db =
     foldl insert_gameweek (db\<lparr>gameweeks := []\<rparr>) (gameweek_groups (real_matches db))"

section \<open>Notions used in the statements\<close>

text \<open>
  The value a loop variable holds after the loop when it is assigned \<open>f row\<close> at every
  row that satisfies \<open>P\<close> and starts at zero: that of the last such row.
\<close>

definition tracked_points ::
  "(player_record \<Rightarrow> bool) \<Rightarrow> (player_record \<Rightarrow> int) \<Rightarrow> player_record list \<Rightarrow> int" where
  "tracked_points P f rows = (if filter P rows = [] then 0 else f (last (filter P rows)))"

text \<open>The sum of the starters' points after substitution, before any bonus.\<close>

definition starters_total :: "database \<Rightarrow> uuid \<Rightarrow> int \<Rightarrow> int" where
  "starters_total db t gw = sum_list (map (substituted_points db t gw) (starter_rows db t gw))"

text \<open>The captain's computed points: those of the captain's row among the starters.\<close>

definition captain_computed_points :: "database \<Rightarrow> uuid \<Rightarrow> int \<Rightarrow> int" where
  "captain_computed_points db t gw =
     tracked_points (\<lambda>row. Some (player_id row) = captain_id db t)
       (substituted_points db t gw) (starter_rows db t gw)"

text \<open>The same for the vice-captain, who is tracked only when not also the captain.\<close>

definition vice_captain_computed_points :: "database \<Rightarrow> uuid \<Rightarrow> int \<Rightarrow> int" where
  "vice_captain_computed_points db t gw =
     tracked_points
       (\<lambda>row. Some (player_id row) \<noteq> captain_id db t \<and> Some (player_id row) = vice_captain_id db t)
       (substituted_points db t gw) (starter_rows db t gw)"

text \<open>The key of a score row, and the points of the candidates for a substitution.\<close>

definition score_key :: "gameweek_score \<Rightarrow> uuid \<times> int" where
  "score_key gs = (gs_player_id gs, gs_gameweek gs)"

definition bench_points :: "database \<Rightarrow> uuid \<Rightarrow> int \<Rightarrow> string \<Rightarrow> int list" where
  "bench_points db t gw pos =
     map (\<lambda>((r, gs), p). coalesce (total_points gs) 0) (bench_candidates db t gw pos)"

text \<open>
  The key of the unique constraint on the points records; the cumulative totals stored
  for a team; the points of the records stored for a team and gameweek.
\<close>

definition tgp_key :: "team_gameweek_points \<Rightarrow> uuid \<times> int" where
  "tgp_key row = (tgp_fantasy_team_id row, tgp_gameweek row)"

definition team_totals :: "database \<Rightarrow> uuid \<Rightarrow> int list" where
  "team_totals db t = map ft_total_points (filter (\<lambda>ft. fantasy_team_id ft = t) (fantasy_teams db))"

definition points_records :: "database \<Rightarrow> uuid \<Rightarrow> int \<Rightarrow> int option list" where
  "points_records db t gw =
     map points (filter (\<lambda>row. tgp_fantasy_team_id row = t \<and> tgp_gameweek row = gw)
                   (fantasy_team_gameweek_points db))"

text \<open>
  The constraints of the schema that the finalizer relies on: \<open>fantasy_team_id\<close> is the
  key of \<open>fantasy_teams\<close> (the points records reference it), and
  \<^verbatim>\<open>UNIQUE(fantasy_team_id, gameweek)\<close> holds on the points records.
\<close>

definition well_formed :: "database \<Rightarrow> bool" where
  "well_formed db \<longleftrightarrow>
     distinct (map fantasy_team_id (fantasy_teams db)) \<and>
     distinct (map tgp_key (fantasy_team_gameweek_points db))"

text \<open>
  For the proofs: the columns of a row other than its rank, the tables the scoring
  engine reads, a team row credited with the points of a gameweek, the records of a team
  and gameweek, and the tables after the first loop of the finalizer.
\<close>

definition tgp_data :: "team_gameweek_points \<Rightarrow> uuid \<times> int \<times> int option" where
  "tgp_data row = (tgp_fantasy_team_id row, tgp_gameweek row, points row)"

definition ft_data :: "fantasy_team \<Rightarrow> uuid \<times> uuid option \<times> int \<times> int" where
  "ft_data ft = (fantasy_team_id ft, league_id ft, ft_total_points ft, gameweek_points ft)"

definition same_scores :: "database \<Rightarrow> database \<Rightarrow> bool" where
  "same_scores db db' \<longleftrightarrow>
     rosters db' = rosters db \<and> players db' = players db \<and> gameweek_scores db' = gameweek_scores db"

definition credited :: "database \<Rightarrow> int \<Rightarrow> uuid set \<Rightarrow> fantasy_team \<Rightarrow> fantasy_team" where
  "credited db gw ts ft =
     (if fantasy_team_id ft \<in> ts
      then ft\<lparr>ft_total_points := ft_total_points ft + calculate_fantasy_team_points db (fantasy_team_id ft) gw,
              gameweek_points := calculate_fantasy_team_points db (fantasy_team_id ft) gw\<rparr>
      else ft)"

definition records_of :: "team_gameweek_points list \<Rightarrow> uuid \<Rightarrow> int \<Rightarrow> team_gameweek_points list" where
  "records_of tbl t gw = filter (\<lambda>row. tgp_fantasy_team_id row = t \<and> tgp_gameweek row = gw) tbl"

definition after_teams :: "database \<Rightarrow> int \<Rightarrow> database" where
  "after_teams db gw = foldl (team_step gw) db (league_team_ids db)"

text \<open>
  For the time-derived flags: whether the window of a gameweek contains a time, the
  rows flagged current, and stored windows of different gameweeks that do not overlap.
\<close>

definition in_window :: "timestamp \<Rightarrow> gameweek_window \<Rightarrow> bool" where
  "in_window now g \<longleftrightarrow> start_time g \<le> now \<and> now \<le> end_time g"

definition current_gameweeks :: "gameweek_window list \<Rightarrow> gameweek_window list" where
  "current_gameweeks tbl = filter (\<lambda>g. is_current g = Some True) tbl"

definition disjoint_windows :: "gameweek_window list \<Rightarrow> bool" where
  "disjoint_windows tbl \<longleftrightarrow>
     (\<forall>g \<in> set tbl. \<forall>g' \<in> set tbl.
        gw_number g \<noteq> gw_number g' \<longrightarrow> end_time g < start_time g' \<or> end_time g' < start_time g)"

text \<open>
  For the regeneration: the columns of a gameweek row that come from the matches (the
  serial identifier does not), the dated matches of a gameweek number and their days.
\<close>

definition gameweek_fields :: "gameweek \<Rightarrow> int \<times> int \<times> int \<times> string" where
  "gameweek_fields g = (gameweek_number g, start_date g, end_date g, status g)"

definition dated_matches :: "real_match list \<Rightarrow> int \<Rightarrow> real_match list" where
  "dated_matches ms n = filter (\<lambda>m. match_date m \<noteq> None \<and> rm_gameweek m = n) ms"

definition match_days :: "real_match list \<Rightarrow> int \<Rightarrow> int list" where
  "match_days ms n = map (\<lambda>m. DATE (the (match_date m))) (dated_matches ms n)"

text \<open>
  The teams of a league, and the points records of a gameweek that belong to them.
\<close>

definition league_members :: "database \<Rightarrow> uuid \<Rightarrow> uuid list" where
  "league_members db league =
     map fantasy_team_id (filter (\<lambda>ft. league_id ft = Some league) (fantasy_teams db))"

definition league_records :: "database \<Rightarrow> uuid \<Rightarrow> int \<Rightarrow> team_gameweek_points list" where
  "league_records db league gw =
     filter (\<lambda>row. tgp_gameweek row = gw \<and> tgp_fantasy_team_id row \<in> set (league_members db league))
       (fantasy_team_gameweek_points db)"

text \<open>
  For the proofs: the rank update on one row and the rows that \<open>ranked_teams\<close> sorts.
  Then what every engine does: it hands the rows of a query to the sort, none lost, none
  added, in whatever order. Last, the state in which every team of a league has its
  points record of the gameweek, and the ranking of a league being in place.
\<close>

definition assign_rank :: "(uuid \<times> int) list \<Rightarrow> team_gameweek_points \<Rightarrow> team_gameweek_points" where
  "assign_rank ranked row =
     (case map_of ranked (tgp_fantasy_team_id row) of
        None \<Rightarrow> row
      | Some rk \<Rightarrow> row\<lparr>rank_in_league := Some rk\<rparr>)"

definition joined_rows :: "database \<Rightarrow> uuid \<Rightarrow> int \<Rightarrow> (team_gameweek_points \<times> fantasy_team) list" where
  "joined_rows db league gw =
     filter (\<lambda>(ftgp, ft). league_id ft = Some league \<and> tgp_gameweek ftgp = gw)
       (inner_join (fantasy_team_gameweek_points db) (fantasy_teams db)
          (\<lambda>ftgp ft. tgp_fantasy_team_id ftgp = fantasy_team_id ft))"

definition permuting :: "row_orders \<Rightarrow> bool" where
  "permuting ro \<longleftrightarrow>
     (\<forall>rows. mset (ranked_order ro rows) = mset rows) \<and>
     (\<forall>rows. mset (overall_order ro rows) = mset rows)"

definition complete :: "database \<Rightarrow> int \<Rightarrow> bool" where
  "complete db gw \<longleftrightarrow>
     (\<forall>t \<in> set (league_team_ids db). \<exists>v. points_records db t gw = [Some v])"

definition ranked_ok :: "database \<Rightarrow> uuid \<Rightarrow> int \<Rightarrow> bool" where
  "ranked_ok db league gw \<longleftrightarrow>
     length (league_records db league gw) = length (league_members db league) \<and>
     distinct (map rank_in_league (league_records db league gw)) \<and>
     set (map rank_in_league (league_records db league gw)) =
       Some ` {1 .. int (length (league_members db league))} \<and>
     (\<forall>row \<in> set (league_records db league gw). points row \<noteq> None) \<and>
     (\<forall>r1 \<in> set (league_records db league gw). \<forall>r2 \<in> set (league_records db league gw).
        rank_in_league r1 < rank_in_league r2 \<longrightarrow> points r2 \<le> points r1)"

section \<open>Example tables\<close>

definition no_tables :: database where
  "no_tables = \<lparr> rosters = [], players = [], gameweek_scores = [], fantasy_teams = [],
                 fantasy_team_gameweek_points = [], gameweeks = [], gameweeks_seq = 0,
                 real_matches = [] \<rparr>"

text \<open>
  Team 1 in gameweek 1: the captain (player 10) played and scored 10, the vice-captain
  (player 11) played and scored 5, a third starter scored 2.
\<close>

definition captain_scenario :: database where
  "captain_scenario = no_tables
     \<lparr> rosters :=
         [\<lparr> r_fantasy_team_id = 1, r_player_id = 10, is_starter = True,
             is_captain = True, is_vice_captain = False \<rparr>,
          \<lparr> r_fantasy_team_id = 1, r_player_id = 11, is_starter = True,
             is_captain = False, is_vice_captain = True \<rparr>,
          \<lparr> r_fantasy_team_id = 1, r_player_id = 12, is_starter = True,
             is_captain = False, is_vice_captain = False \<rparr>],
       players :=
         [\<lparr> p_player_id = 10, position = ''FWD'' \<rparr>,
          \<lparr> p_player_id = 11, position = ''MID'' \<rparr>,
          \<lparr> p_player_id = 12, position = ''DEF'' \<rparr>],
       gameweek_scores :=
         [\<lparr> gs_player_id = 10, gs_gameweek = 1, total_points = Some 10, minutes_played = Some 90 \<rparr>,
          \<lparr> gs_player_id = 11, gs_gameweek = 1, total_points = Some 5, minutes_played = Some 90 \<rparr>,
          \<lparr> gs_player_id = 12, gs_gameweek = 1, total_points = Some 2, minutes_played = Some 45 \<rparr>] \<rparr>"

text \<open>
  Team 1 in gameweek 1: the captain (player 20) sits on the bench with 12 points, the
  vice-captain (player 21) started and scored 5, a third starter scored 2.
\<close>

definition bench_captain_scenario :: database where
  "bench_captain_scenario = no_tables
     \<lparr> rosters :=
         [\<lparr> r_fantasy_team_id = 1, r_player_id = 20, is_starter = False,
             is_captain = True, is_vice_captain = False \<rparr>,
          \<lparr> r_fantasy_team_id = 1, r_player_id = 21, is_starter = True,
             is_captain = False, is_vice_captain = True \<rparr>,
          \<lparr> r_fantasy_team_id = 1, r_player_id = 22, is_starter = True,
             is_captain = False, is_vice_captain = False \<rparr>],
       players :=
         [\<lparr> p_player_id = 20, position = ''FWD'' \<rparr>,
          \<lparr> p_player_id = 21, position = ''MID'' \<rparr>,
          \<lparr> p_player_id = 22, position = ''DEF'' \<rparr>],
       gameweek_scores :=
         [\<lparr> gs_player_id = 20, gs_gameweek = 1, total_points = Some 12, minutes_played = Some 90 \<rparr>,
          \<lparr> gs_player_id = 21, gs_gameweek = 1, total_points = Some 5, minutes_played = Some 90 \<rparr>,
          \<lparr> gs_player_id = 22, gs_gameweek = 1, total_points = Some 2, minutes_played = Some 45 \<rparr>] \<rparr>"

text \<open>Team 1 in gameweek 1: a single starter, who played 90 minutes and scored -2.\<close>

definition negative_scenario :: database where
  "negative_scenario = no_tables
     \<lparr> rosters :=
         [\<lparr> r_fantasy_team_id = 1, r_player_id = 30, is_starter = True,
             is_captain = False, is_vice_captain = False \<rparr>],
       players := [\<lparr> p_player_id = 30, position = ''DEF'' \<rparr>],
       gameweek_scores :=
         [\<lparr> gs_player_id = 30, gs_gameweek = 1, total_points = Some (- 2),
             minutes_played = Some 90 \<rparr>] \<rparr>"

text \<open>
  Team 1 in gameweek 1: a single starter, recorded with no minutes and -1 point (a card
  shown to a player who did not come on), and nobody on the bench.
\<close>

definition unused_starter_scenario :: database where
  "unused_starter_scenario = no_tables
     \<lparr> rosters :=
         [\<lparr> r_fantasy_team_id = 1, r_player_id = 40, is_starter = True,
             is_captain = False, is_vice_captain = False \<rparr>],
       players := [\<lparr> p_player_id = 40, position = ''MID'' \<rparr>],
       gameweek_scores :=
         [\<lparr> gs_player_id = 40, gs_gameweek = 1, total_points = Some (- 1),
             minutes_played = Some 0 \<rparr>] \<rparr>"

definition unused_starter_row :: player_record where
  "unused_starter_row =
     \<lparr> player_id = 40, pr_is_captain = False, pr_is_vice_captain = False,
       pr_position = ''MID'', player_points = - 1, pr_minutes_played = 0 \<rparr>"

text \<open>
  Team 1 in gameweek 1: a defender who started and did not play; on the bench two
  defenders who played (4 and 6 points) and a midfielder who played (9 points).
  Team 2: a forward who started, has no score row, and nobody on the bench.
\<close>

definition substitution_scenario :: database where
  "substitution_scenario = no_tables
     \<lparr> rosters :=
         [\<lparr> r_fantasy_team_id = 1, r_player_id = 50, is_starter = True,
             is_captain = False, is_vice_captain = False \<rparr>,
          \<lparr> r_fantasy_team_id = 1, r_player_id = 51, is_starter = False,
             is_captain = False, is_vice_captain = False \<rparr>,
          \<lparr> r_fantasy_team_id = 1, r_player_id = 52, is_starter = False,
             is_captain = False, is_vice_captain = False \<rparr>,
          \<lparr> r_fantasy_team_id = 1, r_player_id = 53, is_starter = False,
             is_captain = False, is_vice_captain = False \<rparr>,
          \<lparr> r_fantasy_team_id = 2, r_player_id = 54, is_starter = True,
             is_captain = False, is_vice_captain = False \<rparr>],
       players :=
         [\<lparr> p_player_id = 50, position = ''DEF'' \<rparr>,
          \<lparr> p_player_id = 51, position = ''DEF'' \<rparr>,
          \<lparr> p_player_id = 52, position = ''DEF'' \<rparr>,
          \<lparr> p_player_id = 53, position = ''MID'' \<rparr>,
          \<lparr> p_player_id = 54, position = ''FWD'' \<rparr>],
       gameweek_scores :=
         [\<lparr> gs_player_id = 50, gs_gameweek = 1, total_points = Some 0, minutes_played = Some 0 \<rparr>,
          \<lparr> gs_player_id = 51, gs_gameweek = 1, total_points = Some 4, minutes_played = Some 60 \<rparr>,
          \<lparr> gs_player_id = 52, gs_gameweek = 1, total_points = Some 6, minutes_played = Some 30 \<rparr>,
          \<lparr> gs_player_id = 53, gs_gameweek = 1, total_points = Some 9, minutes_played = Some 90 \<rparr>] \<rparr>"

definition substitution_row :: player_record where
  "substitution_row =
     \<lparr> player_id = 50, pr_is_captain = False, pr_is_vice_captain = False,
       pr_position = ''DEF'', player_points = 0, pr_minutes_played = 0 \<rparr>"

definition no_bench_row :: player_record where
  "no_bench_row =
     \<lparr> player_id = 54, pr_is_captain = False, pr_is_vice_captain = False,
       pr_position = ''FWD'', player_points = 0, pr_minutes_played = 0 \<rparr>"

text \<open>
  Gameweek 1 is locked. Teams 1 and 2 play in league 1 and team 3 in league 2; team 4
  is in no league. Each team starts one player; those of teams 1 and 2 are captains.
  A points record of team 1 for gameweek 1 exists already.
\<close>

definition finalize_scenario :: database where
  "finalize_scenario = no_tables
     \<lparr> rosters :=
         [\<lparr> r_fantasy_team_id = 1, r_player_id = 10, is_starter = True,
             is_captain = True, is_vice_captain = False \<rparr>,
          \<lparr> r_fantasy_team_id = 2, r_player_id = 11, is_starter = True,
             is_captain = True, is_vice_captain = False \<rparr>,
          \<lparr> r_fantasy_team_id = 3, r_player_id = 12, is_starter = True,
             is_captain = False, is_vice_captain = False \<rparr>,
          \<lparr> r_fantasy_team_id = 4, r_player_id = 10, is_starter = True,
             is_captain = False, is_vice_captain = False \<rparr>],
       players :=
         [\<lparr> p_player_id = 10, position = ''FWD'' \<rparr>,
          \<lparr> p_player_id = 11, position = ''MID'' \<rparr>,
          \<lparr> p_player_id = 12, position = ''DEF'' \<rparr>],
       gameweek_scores :=
         [\<lparr> gs_player_id = 10, gs_gameweek = 1, total_points = Some 6, minutes_played = Some 90 \<rparr>,
          \<lparr> gs_player_id = 11, gs_gameweek = 1, total_points = Some 9, minutes_played = Some 90 \<rparr>,
          \<lparr> gs_player_id = 12, gs_gameweek = 1, total_points = Some 2, minutes_played = Some 90 \<rparr>],
       fantasy_teams :=
         [\<lparr> fantasy_team_id = 1, league_id = Some 1, ft_total_points = 30,
             gameweek_points = 0, ft_rank = 1 \<rparr>,
          \<lparr> fantasy_team_id = 2, league_id = Some 1, ft_total_points = 40,
             gameweek_points = 0, ft_rank = 1 \<rparr>,
          \<lparr> fantasy_team_id = 3, league_id = Some 2, ft_total_points = 5,
             gameweek_points = 0, ft_rank = 1 \<rparr>,
          \<lparr> fantasy_team_id = 4, league_id = None, ft_total_points = 7,
             gameweek_points = 0, ft_rank = 1 \<rparr>],
       fantasy_team_gameweek_points :=
         [\<lparr> tgp_fantasy_team_id = 1, tgp_gameweek = 1, points = Some 99, rank_in_league = None \<rparr>],
       gameweeks :=
         [\<lparr> gameweek_id = 1, gameweek_number = 1, start_date = 100, end_date = 102,
             status = ''locked'' \<rparr>,
          \<lparr> gameweek_id = 2, gameweek_number = 2, start_date = 107, end_date = 109,
             status = ''upcoming'' \<rparr>],
       gameweeks_seq := 2 \<rparr>"

definition finalize_scenario_team :: fantasy_team where
  "finalize_scenario_team =
     \<lparr> fantasy_team_id = 1, league_id = Some 1, ft_total_points = 30,
       gameweek_points = 0, ft_rank = 1 \<rparr>"

text \<open>
  Two engines: one hands the rows over in stored order, the other in the reverse of it.
\<close>

definition stored_orders :: row_orders where
  "stored_orders = \<lparr> ranked_order = (\<lambda>rows. rows), overall_order = (\<lambda>rows. rows) \<rparr>"

definition reversed_orders :: row_orders where
  "reversed_orders = \<lparr> ranked_order = rev, overall_order = rev \<rparr>"

text \<open>
  Gameweek 1 is locked. Teams 1 and 2 play in league 1; each starts one player, and both
  players scored 20.
\<close>

definition tie_scenario :: database where
  "tie_scenario = no_tables
     \<lparr> rosters :=
         [\<lparr> r_fantasy_team_id = 1, r_player_id = 10, is_starter = True,
             is_captain = False, is_vice_captain = False \<rparr>,
          \<lparr> r_fantasy_team_id = 2, r_player_id = 11, is_starter = True,
             is_captain = False, is_vice_captain = False \<rparr>],
       players :=
         [\<lparr> p_player_id = 10, position = ''FWD'' \<rparr>,
          \<lparr> p_player_id = 11, position = ''MID'' \<rparr>],
       gameweek_scores :=
         [\<lparr> gs_player_id = 10, gs_gameweek = 1, total_points = Some 20, minutes_played = Some 90 \<rparr>,
          \<lparr> gs_player_id = 11, gs_gameweek = 1, total_points = Some 20, minutes_played = Some 90 \<rparr>],
       fantasy_teams :=
         [\<lparr> fantasy_team_id = 1, league_id = Some 1, ft_total_points = 0,
             gameweek_points = 0, ft_rank = 1 \<rparr>,
          \<lparr> fantasy_team_id = 2, league_id = Some 1, ft_total_points = 0,
             gameweek_points = 0, ft_rank = 1 \<rparr>],
       gameweeks :=
         [\<lparr> gameweek_id = 1, gameweek_number = 1, start_date = 100, end_date = 102,
             status = ''locked'' \<rparr>],
       gameweeks_seq := 1 \<rparr>"

text \<open>Gameweek 1 is finalized, gameweek 2 is active.\<close>

definition status_scenario :: database where
  "status_scenario = no_tables
     \<lparr> gameweeks :=
         [\<lparr> gameweek_id = 1, gameweek_number = 1, start_date = 100, end_date = 102,
             status = ''finalized'' \<rparr>,
          \<lparr> gameweek_id = 2, gameweek_number = 2, start_date = 107, end_date = 109,
             status = ''active'' \<rparr>],
       gameweeks_seq := 2 \<rparr>"

text \<open>
  The first two gameweeks that \<^verbatim>\<open>20250616110333_dry_wave.sql\<close> inserts, with times in
  minutes since 2025-01-15 00:00 UTC.
\<close>

definition seeded_gameweeks :: "gameweek_window list" where
  "seeded_gameweeks =
     [\<lparr> gw_number = 1, deadline_time = 1050, start_time = 1140, end_time = 4260,
         is_current = Some True, is_next = Some False, is_finished = Some False \<rparr>,
      \<lparr> gw_number = 2, deadline_time = 11130, start_time = 11220, end_time = 14340,
         is_current = Some False, is_next = Some False, is_finished = Some False \<rparr>]"

text \<open>
  Two completed matches of gameweek 1, a scheduled and a completed match of gameweek 2,
  an undated match of gameweek 3, and a stale gameweek row; dates in microseconds.
\<close>

definition matches_scenario :: database where
  "matches_scenario = no_tables
     \<lparr> gameweeks :=
         [\<lparr> gameweek_id = 1, gameweek_number = 7, start_date = 1, end_date = 2,
             status = ''active'' \<rparr>],
       gameweeks_seq := 1,
       real_matches :=
         [\<lparr> rm_gameweek = 2, match_date = Some (20111 * 86400000000 + 68400000000),
             rm_status = ''scheduled'' \<rparr>,
          \<lparr> rm_gameweek = 1, match_date = Some (20105 * 86400000000 + 72000000000),
             rm_status = ''completed'' \<rparr>,
          \<lparr> rm_gameweek = 1, match_date = Some (20104 * 86400000000 + 68400000000),
             rm_status = ''completed'' \<rparr>,
          \<lparr> rm_gameweek = 2, match_date = Some (20112 * 86400000000),
             rm_status = ''completed'' \<rparr>,
          \<lparr> rm_gameweek = 3, match_date = None, rm_status = ''scheduled'' \<rparr>] \<rparr>"

section \<open>Properties of the scoring engine\<close>

lemma tracked_points_Nil: "tracked_points P f [] = 0"
  by (simp add: tracked_points_def)

lemma tracked_points_snoc:
  "tracked_points P f (rows @ [row]) = (if P row then f row else tracked_points P f rows)"
  by (simp add: tracked_points_def)

text \<open>The loop, run from the initial values of its three variables.\<close>

lemma loop_body_foldl:
  "foldl (loop_body db t gw cid vid) (0, 0, 0) rows =
     (sum_list (map (substituted_points db t gw) rows),
      tracked_points (\<lambda>row. Some (player_id row) = cid) (substituted_points db t gw) rows,
      tracked_points (\<lambda>row. Some (player_id row) \<noteq> cid \<and> Some (player_id row) = vid)
        (substituted_points db t gw) rows)"
proof (induction rows rule: rev_induct)
  case Nil
  show ?case by (simp add: tracked_points_Nil)
next
  case (snoc row rows)
  have "foldl (loop_body db t gw cid vid) (0, 0, 0) (rows @ [row]) =
          loop_body db t gw cid vid (foldl (loop_body db t gw cid vid) (0, 0, 0) rows) row"
    by simp
  also have "\<dots> = loop_body db t gw cid vid
       (sum_list (map (substituted_points db t gw) rows),
        tracked_points (\<lambda>row. Some (player_id row) = cid) (substituted_points db t gw) rows,
        tracked_points (\<lambda>row. Some (player_id row) \<noteq> cid \<and> Some (player_id row) = vid)
          (substituted_points db t gw) rows) row"
    by (simp only: snoc.IH)
  also have "\<dots> =
     (sum_list (map (substituted_points db t gw) (rows @ [row])),
      tracked_points (\<lambda>row. Some (player_id row) = cid) (substituted_points db t gw) (rows @ [row]),
      tracked_points (\<lambda>row. Some (player_id row) \<noteq> cid \<and> Some (player_id row) = vid)
        (substituted_points db t gw) (rows @ [row]))"
    by (simp add: tracked_points_snoc loop_body_def Let_def)
  finally show ?case .
qed

lemma calculate_fantasy_team_points_eq:
  "calculate_fantasy_team_points db t gw =
     starters_total db t gw +
       (if 0 < captain_computed_points db t gw then captain_computed_points db t gw
        else if 0 < vice_captain_computed_points db t gw
             then vice_captain_computed_points db t gw
             else 0)"
  by (simp add: calculate_fantasy_team_points_def loop_body_foldl starters_total_def
      captain_computed_points_def vice_captain_computed_points_def)

text \<open>
  Claim C1. For every team and gameweek the result is the starters' total after
  substitution plus the captain bonus: when the captain's computed points are positive
  they are added a second time; otherwise, when the vice-captain's computed points are
  positive, those are added a second time; otherwise nothing is added.
\<close>

theorem captain_bonus:
  "(0 < captain_computed_points db t gw \<longrightarrow>
      calculate_fantasy_team_points db t gw =
        starters_total db t gw + captain_computed_points db t gw) \<and>
   (\<not> 0 < captain_computed_points db t gw \<and> 0 < vice_captain_computed_points db t gw \<longrightarrow>
      calculate_fantasy_team_points db t gw =
        starters_total db t gw + vice_captain_computed_points db t gw) \<and>
   (\<not> 0 < captain_computed_points db t gw \<and> \<not> 0 < vice_captain_computed_points db t gw \<longrightarrow>
      calculate_fantasy_team_points db t gw = starters_total db t gw)"
  by (simp add: calculate_fantasy_team_points_eq)

text \<open>
  The scenario of the specification: the captain played and scored 10, the vice-captain
  played and scored 5; the bonus is 10, on a starters' total of 17.
\<close>

theorem captain_bonus_scenario:
  "captain_computed_points captain_scenario 1 1 = 10 \<and>
   vice_captain_computed_points captain_scenario 1 1 = 5 \<and>
   starters_total captain_scenario 1 1 = 17 \<and>
   calculate_fantasy_team_points captain_scenario 1 1 = 17 + 10"
proof -
  have cp: "captain_computed_points captain_scenario 1 1 = 10"
    by code_simp
  have vp: "vice_captain_computed_points captain_scenario 1 1 = 5"
    by code_simp
  have st: "starters_total captain_scenario 1 1 = 17"
    by code_simp
  from captain_bonus [of captain_scenario 1 1] cp vp st show ?thesis
    by simp
qed

subsection \<open>Rows of the queries\<close>

lemma set_inner_join:
  "set (inner_join xs ys c) = {(x, y). x \<in> set xs \<and> y \<in> set ys \<and> c x y}"
  by (auto simp: inner_join_def)

lemma set_left_join:
  "set (left_join xs ys c) =
     {(x, y). x \<in> set xs \<and> ((y = None \<and> (\<forall>z \<in> set ys. \<not> c x z)) \<or>
                              (\<exists>z \<in> set ys. c x z \<and> y = Some z))}"
  by (auto simp: left_join_def filter_empty_conv split: if_splits)

lemma starter_rows_player:
  "row \<in> set (starter_rows db t gw) \<Longrightarrow>
     \<exists>r \<in> set (rosters db). r_fantasy_team_id r = t \<and> is_starter r \<and> r_player_id r = player_id row"
  by (auto simp: starter_rows_def set_left_join set_inner_join)

lemma starter_rows_points:
  "row \<in> set (starter_rows db t gw) \<Longrightarrow>
     player_points row = 0 \<or>
     (\<exists>gs \<in> set (gameweek_scores db). gs_gameweek gs = gw \<and> player_points row = coalesce (total_points gs) 0)"
  by (auto simp: starter_rows_def set_left_join set_inner_join coalesce_def)

lemma bench_candidates_mem:
  "((r, gs), p) \<in> set (bench_candidates db t gw pos) \<longleftrightarrow>
     r \<in> set (rosters db) \<and> gs \<in> set (gameweek_scores db) \<and> p \<in> set (players db) \<and>
     r_player_id r = gs_player_id gs \<and> r_player_id r = p_player_id p \<and>
     r_fantasy_team_id r = t \<and> \<not> is_starter r \<and> position p = pos \<and> gs_gameweek gs = gw \<and>
     0 < coalesce (minutes_played gs) 0"
  by (auto simp: bench_candidates_def set_inner_join)


lemma tracked_points_none:
  "(\<And>row. row \<in> set rows \<Longrightarrow> \<not> P row) \<Longrightarrow> tracked_points P f rows = 0"
  by (simp add: tracked_points_def filter_empty_conv)

text \<open>
  Claim C10. The bonus comes from starters only: when the player flagged captain has no
  starter row in the team's roster, the captain's tracked points stay zero whatever that
  player scored, and the bonus is the vice-captain's computed points if they are
  positive (the vice-captain's are tracked over the starters as well) and nothing
  otherwise.
\<close>

theorem bench_captain_no_bonus:
  assumes "captain_id db t = Some c"
    and "\<forall>r \<in> set (rosters db). r_fantasy_team_id r = t \<and> r_player_id r = c \<longrightarrow> \<not> is_starter r"
  shows "captain_computed_points db t gw = 0 \<and>
         calculate_fantasy_team_points db t gw =
           starters_total db t gw +
             (if 0 < vice_captain_computed_points db t gw
              then vice_captain_computed_points db t gw else 0)"
proof -
  have "captain_computed_points db t gw = 0"
    unfolding captain_computed_points_def
  proof (rule tracked_points_none)
    fix row assume "row \<in> set (starter_rows db t gw)"
    from starter_rows_player [OF this] assms show "Some (player_id row) \<noteq> captain_id db t"
      by auto
  qed
  then show ?thesis
    by (simp add: calculate_fantasy_team_points_eq)
qed

lemma substitute_points_cases:
  "substitute_points db sid gw = 0 \<or>
     (\<exists>gs \<in> set (gameweek_scores db). gs_gameweek gs = gw \<and> substitute_points db sid gw = coalesce (total_points gs) 0)"
proof (cases "[gs \<leftarrow> gameweek_scores db. gs_player_id gs = sid \<and> gs_gameweek gs = gw]")
  case Nil
  then show ?thesis by (simp add: substitute_points_def)
next
  case (Cons g gs)
  then have "g \<in> set [gs \<leftarrow> gameweek_scores db. gs_player_id gs = sid \<and> gs_gameweek gs = gw]"
    by simp
  then have "g \<in> set (gameweek_scores db)" "gs_gameweek g = gw" by auto
  with Cons show ?thesis by (auto simp: substitute_points_def)
qed

lemma substituted_points_nonneg:
  assumes "\<forall>gs \<in> set (gameweek_scores db). gs_gameweek gs = gw \<longrightarrow> 0 \<le> coalesce (total_points gs) 0"
    and "row \<in> set (starter_rows db t gw)"
  shows "0 \<le> substituted_points db t gw row"
proof -
  from starter_rows_points [OF assms(2)] assms(1) have a: "0 \<le> player_points row" by auto
  have b: "0 \<le> substitute_points db sid gw" for sid
    using substitute_points_cases [of db sid gw] assms(1) by auto
  show ?thesis
    by (simp add: substituted_points_def a b split: option.splits)
qed

lemma starters_total_le: "starters_total db t gw \<le> calculate_fantasy_team_points db t gw"
  by (simp add: calculate_fantasy_team_points_eq)

text \<open>
  Claim C5, as amended. The result is an integer that can be negative; it is
  non-negative when no score row of the gameweek records negative points.
\<close>

theorem nonneg_scores_nonneg_total:
  assumes "\<forall>gs \<in> set (gameweek_scores db). gs_gameweek gs = gw \<longrightarrow> 0 \<le> coalesce (total_points gs) 0"
  shows "0 \<le> calculate_fantasy_team_points db t gw"
proof -
  have "0 \<le> starters_total db t gw"
    unfolding starters_total_def
    by (rule sum_list_nonneg) (auto dest: substituted_points_nonneg [OF assms])
  with starters_total_le [of db t gw] show ?thesis by simp
qed

lemma sort_key_head:
  assumes "sort_key f xs = y # ys"
  shows "y \<in> set xs \<and> (\<forall>x \<in> set xs. f y \<le> f x)"
proof -
  have "set (sort_key f xs) = set xs" by simp
  with assms have s: "set xs = insert y (set ys)" by simp
  have "sorted (map f (sort_key f xs))" by (rule sorted_sort_key)
  with assms have "\<forall>x \<in> set ys. f y \<le> f x" by simp
  with s show ?thesis by auto
qed

lemma sort_key_Nil_iff: "sort_key f xs = [] \<longleftrightarrow> xs = []"
  by (metis length_sort length_0_conv)

lemma get_auto_substitute_None:
  "get_auto_substitute db t gw pos = None \<longleftrightarrow> bench_candidates db t gw pos = []"
  by (auto simp: get_auto_substitute_def sort_key_Nil_iff split: list.splits)

lemma get_auto_substitute_Some:
  assumes "get_auto_substitute db t gw pos = Some sid"
  shows "\<exists>r gs p. ((r, gs), p) \<in> set (bench_candidates db t gw pos) \<and> sid = gs_player_id gs \<and>
           (\<forall>((r', gs'), p') \<in> set (bench_candidates db t gw pos).
              desc_key (total_points gs) \<le> desc_key (total_points gs'))"
proof -
  from assms obtain r gs p rest where
    s: "sort_key (\<lambda>((r, gs), p). desc_key (total_points gs)) (bench_candidates db t gw pos) = ((r, gs), p) # rest"
    and sid: "sid = r_player_id r"
    by (auto simp: get_auto_substitute_def split: list.splits)
  from sort_key_head [OF s] have m: "((r, gs), p) \<in> set (bench_candidates db t gw pos)"
    and le: "\<forall>x \<in> set (bench_candidates db t gw pos).
        desc_key (total_points gs) \<le> (case x of ((r, gs), p) \<Rightarrow> desc_key (total_points gs))"
    by auto
  from m have "r_player_id r = gs_player_id gs" by (simp add: bench_candidates_mem)
  with m le sid show ?thesis by fastforce
qed

lemma substitute_has_score:
  assumes "get_auto_substitute db t gw pos = Some sid"
  shows "[gs \<leftarrow> gameweek_scores db. gs_player_id gs = sid \<and> gs_gameweek gs = gw] \<noteq> []"
proof -
  from get_auto_substitute_Some [OF assms] obtain r gs p where
    "((r, gs), p) \<in> set (bench_candidates db t gw pos)" "sid = gs_player_id gs" by blast
  then have "gs \<in> set (gameweek_scores db)" "gs_player_id gs = sid" "gs_gameweek gs = gw"
    by (simp_all add: bench_candidates_mem)
  then show ?thesis by (auto simp: filter_empty_conv)
qed

lemma filter_unique_key:
  "distinct (map k xs) \<Longrightarrow> x \<in> set xs \<Longrightarrow> filter (\<lambda>y. k y = k x) xs = [x]"
proof (induction xs)
  case Nil
  then show ?case by simp
next
  case (Cons a xs)
  show ?case
  proof (cases "a = x")
    case True
    from Cons.prems have "k a \<notin> k ` set xs" by simp
    with True have "\<forall>y \<in> set xs. k y \<noteq> k x" by (metis imageI)
    then have "filter (\<lambda>y. k y = k x) xs = []" by (simp add: filter_empty_conv)
    with True show ?thesis by simp
  next
    case False
    with Cons.prems have "x \<in> set xs" "k a \<noteq> k x" by auto
    with Cons show ?thesis by simp
  qed
qed

text \<open>
  Claim C2, as amended. For a starter with zero minutes: when no bench player of the
  team has the same position and positive minutes in the gameweek, the starter
  contributes the points recorded for the starter; when there is one, score rows are
  unique for a player and gameweek and the candidates' points are not \<^verbatim>\<open>NULL\<close>, the
  starter contributes the highest points among those bench players.
\<close>

theorem zero_minutes_starter:
  assumes "row \<in> set (starter_rows db t gw)" and "pr_minutes_played row = 0"
  shows "(bench_candidates db t gw (pr_position row) = [] \<longrightarrow>
            substituted_points db t gw row = player_points row) \<and>
         (bench_candidates db t gw (pr_position row) \<noteq> [] \<and>
          distinct (map score_key (gameweek_scores db)) \<and>
          (\<forall>((r, gs), p) \<in> set (bench_candidates db t gw (pr_position row)). total_points gs \<noteq> None) \<longrightarrow>
            substituted_points db t gw row = Max (set (bench_points db t gw (pr_position row))))"
proof (intro conjI impI)
  assume "bench_candidates db t gw (pr_position row) = []"
  then show "substituted_points db t gw row = player_points row"
    by (simp add: substituted_points_def get_auto_substitute_None [symmetric])
next
  let ?c = "bench_candidates db t gw (pr_position row)"
  assume a: "?c \<noteq> [] \<and> distinct (map score_key (gameweek_scores db)) \<and>
          (\<forall>((r, gs), p) \<in> set ?c. total_points gs \<noteq> None)"
  then obtain sid where sid: "get_auto_substitute db t gw (pr_position row) = Some sid"
    using get_auto_substitute_None [of db t gw "pr_position row"] by auto
  from get_auto_substitute_Some [OF sid] obtain r gs p where
    m: "((r, gs), p) \<in> set ?c" and s: "sid = gs_player_id gs"
    and le: "\<forall>((r', gs'), p') \<in> set ?c. desc_key (total_points gs) \<le> desc_key (total_points gs')"
    by blast
  from m have g: "gs \<in> set (gameweek_scores db)" "gs_gameweek gs = gw"
    by (simp_all add: bench_candidates_mem)
  have "[g \<leftarrow> gameweek_scores db. gs_player_id g = sid \<and> gs_gameweek g = gw] =
        [g \<leftarrow> gameweek_scores db. score_key g = score_key gs]"
    using g s by (simp add: score_key_def)
  also have "\<dots> = [gs]"
    using a g by (simp add: filter_unique_key)
  finally have "[g \<leftarrow> gameweek_scores db. gs_player_id g = sid \<and> gs_gameweek g = gw] = [gs]" .
  then have sp: "substitute_points db sid gw = coalesce (total_points gs) 0"
    by (simp add: substitute_points_def)
  have mem: "coalesce (total_points gs) 0 \<in> set (bench_points db t gw (pr_position row))"
    using m by (force simp: bench_points_def)
  have ub: "v \<le> coalesce (total_points gs) 0" if "v \<in> set (bench_points db t gw (pr_position row))" for v
  proof -
    from that obtain r' gs' p' where m': "((r', gs'), p') \<in> set ?c" and v: "v = coalesce (total_points gs') 0"
      by (auto simp: bench_points_def)
    from m' le have "desc_key (total_points gs) \<le> desc_key (total_points gs')" by auto
    moreover from a m m' have "total_points gs \<noteq> None" "total_points gs' \<noteq> None" by auto
    ultimately show ?thesis using v by (auto simp: desc_key_def coalesce_def)
  qed
  have "Max (set (bench_points db t gw (pr_position row))) = coalesce (total_points gs) 0"
    using mem ub by (intro Max_eqI) auto
  with sp sid assms(2) show "substituted_points db t gw row = Max (set (bench_points db t gw (pr_position row)))"
    by (simp add: substituted_points_def)
qed


theorem zero_minutes_starter_witness:
  "substitution_row \<in> set (starter_rows substitution_scenario 1 1) \<and>
   pr_minutes_played substitution_row = 0 \<and>
   bench_points substitution_scenario 1 1 ''DEF'' = [4, 6] \<and>
   substituted_points substitution_scenario 1 1 substitution_row = 6 \<and>
   no_bench_row \<in> set (starter_rows substitution_scenario 2 1) \<and>
   pr_minutes_played no_bench_row = 0 \<and>
   bench_candidates substitution_scenario 2 1 ''FWD'' = [] \<and>
   substituted_points substitution_scenario 2 1 no_bench_row = 0"
proof -
  have r1: "substitution_row \<in> set (starter_rows substitution_scenario 1 1)"
    by code_simp
  have m1: "pr_minutes_played substitution_row = 0"
    by (simp add: substitution_row_def)
  have p1: "pr_position substitution_row = ''DEF''"
    by (simp add: substitution_row_def)
  have b1: "bench_points substitution_scenario 1 1 ''DEF'' = [4, 6]"
    by code_simp
  have c1: "bench_candidates substitution_scenario 1 1 ''DEF'' \<noteq> []"
    by code_simp
  have d1: "distinct (map score_key (gameweek_scores substitution_scenario))"
    by code_simp
  have n1: "\<forall>((r, gs), p) \<in> set (bench_candidates substitution_scenario 1 1 ''DEF'').
              total_points gs \<noteq> None"
    by code_simp
  have r2: "no_bench_row \<in> set (starter_rows substitution_scenario 2 1)"
    by code_simp
  have m2: "pr_minutes_played no_bench_row = 0"
    by (simp add: no_bench_row_def)
  have p2: "pr_position no_bench_row = ''FWD''"
    by (simp add: no_bench_row_def)
  have c2: "bench_candidates substitution_scenario 2 1 ''FWD'' = []"
    by code_simp
  have pp: "player_points no_bench_row = 0"
    by (simp add: no_bench_row_def)
  from zero_minutes_starter [OF r1 m1] p1 b1 c1 d1 n1
  have s1: "substituted_points substitution_scenario 1 1 substitution_row = 6"
    by simp
  from zero_minutes_starter [OF r2 m2] p2 c2 pp
  have s2: "substituted_points substitution_scenario 2 1 no_bench_row = 0"
    by simp
  from r1 m1 b1 s1 r2 m2 c2 s2 show ?thesis
    by simp
qed

text \<open>
  Against claim C2 as stated: a starter with zero minutes and no bench player to take
  the place contributes the recorded -1, not zero.
\<close>

theorem zero_minutes_starter_counterexample:
  "starter_rows unused_starter_scenario 1 1 = [unused_starter_row] \<and>
   pr_minutes_played unused_starter_row = 0 \<and>
   bench_candidates unused_starter_scenario 1 1 (pr_position unused_starter_row) = [] \<and>
   substituted_points unused_starter_scenario 1 1 unused_starter_row = - 1 \<and>
   calculate_fantasy_team_points unused_starter_scenario 1 1 = - 1"
  by code_simp

theorem nonneg_scores_nonneg_total_witness:
  "map total_points (gameweek_scores captain_scenario) = [Some 10, Some 5, Some 2] \<and>
   0 \<le> calculate_fantasy_team_points captain_scenario 1 1"
proof -
  have h: "\<forall>gs \<in> set (gameweek_scores captain_scenario).
             gs_gameweek gs = 1 \<longrightarrow> 0 \<le> coalesce (total_points gs) 0"
    by code_simp
  have m: "map total_points (gameweek_scores captain_scenario) = [Some 10, Some 5, Some 2]"
    by code_simp
  from m nonneg_scores_nonneg_total [OF h, of 1] show ?thesis
    by simp
qed

text \<open>Against claim C5 as stated: one starter who played and scored -2 gives -2.\<close>

theorem negative_total_counterexample:
  "calculate_fantasy_team_points negative_scenario 1 1 = - 2 \<and>
   \<not> 0 \<le> calculate_fantasy_team_points negative_scenario 1 1"
  by code_simp

theorem bench_captain_no_bonus_witness:
  "captain_id bench_captain_scenario 1 = Some 20 \<and>
   map is_starter (filter (\<lambda>r. r_fantasy_team_id r = 1 \<and> r_player_id r = 20)
                     (rosters bench_captain_scenario)) = [False] \<and>
   captain_computed_points bench_captain_scenario 1 1 = 0 \<and>
   starters_total bench_captain_scenario 1 1 = 7 \<and>
   calculate_fantasy_team_points bench_captain_scenario 1 1 = 7 + 5"
proof -
  have c: "captain_id bench_captain_scenario 1 = Some 20"
    by code_simp
  have b: "\<forall>r \<in> set (rosters bench_captain_scenario).
             r_fantasy_team_id r = 1 \<and> r_player_id r = 20 \<longrightarrow> \<not> is_starter r"
    by code_simp
  have b': "map is_starter (filter (\<lambda>r. r_fantasy_team_id r = 1 \<and> r_player_id r = 20)
                     (rosters bench_captain_scenario)) = [False]"
    by code_simp
  have v: "vice_captain_computed_points bench_captain_scenario 1 1 = 5"
    by code_simp
  have s: "starters_total bench_captain_scenario 1 1 = 7"
    by code_simp
  from c b' bench_captain_no_bonus [OF c b, of 1] v s show ?thesis
    by simp
qed

section \<open>Properties of the finalizer\<close>

lemma same_scores_refl: "same_scores db db"
  by (simp add: same_scores_def)

lemma same_scores_trans: "same_scores a b \<Longrightarrow> same_scores b c \<Longrightarrow> same_scores a c"
  by (simp add: same_scores_def)

lemma same_scores_calculate:
  assumes "same_scores db db'"
  shows "calculate_fantasy_team_points db' t gw = calculate_fantasy_team_points db t gw"
proof -
  from assms have r: "rosters db' = rosters db" and p: "players db' = players db"
    and g: "gameweek_scores db' = gameweek_scores db"
    by (simp_all add: same_scores_def)
  have bc: "bench_candidates db' t gw pos = bench_candidates db t gw pos" for pos
    by (simp add: bench_candidates_def r p g)
  have ga: "get_auto_substitute db' t gw pos = get_auto_substitute db t gw pos" for pos
    by (simp add: get_auto_substitute_def bc)
  have sp: "substitute_points db' sid gw = substitute_points db sid gw" for sid
    by (simp add: substitute_points_def g)
  have su: "substituted_points db' t gw = substituted_points db t gw"
    by (rule ext) (simp add: substituted_points_def ga sp split: option.splits)
  have sr: "starter_rows db' t gw = starter_rows db t gw"
    by (simp add: starter_rows_def r p g)
  have c: "captain_id db' t = captain_id db t" "vice_captain_id db' t = vice_captain_id db t"
    by (simp_all add: captain_id_def vice_captain_id_def r)
  show ?thesis
    by (simp add: calculate_fantasy_team_points_eq starters_total_def captain_computed_points_def
        vice_captain_computed_points_def su sr c)
qed

lemma team_step_same_scores: "same_scores db (team_step gw db t)"
  by (simp add: same_scores_def team_step_def Let_def)

lemma league_step_same_scores: "same_scores db (league_step ro gw db l)"
  by (simp add: same_scores_def league_step_def Let_def)

lemma team_step_fantasy_teams:
  "fantasy_teams (team_step gw db t) =
     add_team_points (fantasy_teams db) t (calculate_fantasy_team_points db t gw)"
  by (simp add: team_step_def Let_def)

lemma team_step_points:
  "fantasy_team_gameweek_points (team_step gw db t) =
     upsert_gameweek_points (fantasy_team_gameweek_points db) t gw (calculate_fantasy_team_points db t gw)"
  by (simp add: team_step_def Let_def)

lemma team_step_gameweeks: "gameweeks (team_step gw db t) = gameweeks db"
  by (simp add: team_step_def Let_def)

lemma league_step_gameweeks: "gameweeks (league_step ro gw db l) = gameweeks db"
  by (simp add: league_step_def Let_def)

lemma foldl_same_scores:
  assumes "\<And>db x. same_scores db (f db x)"
  shows "same_scores db (foldl f db xs)"
proof (induction xs arbitrary: db)
  case Nil
  show ?case by (simp add: same_scores_refl)
next
  case (Cons x xs)
  from assms [of db x] Cons [of "f db x"] show ?case
    by (simp add: same_scores_trans)
qed

lemma foldl_gameweeks:
  assumes "\<And>db x. gameweeks (f db x) = gameweeks db"
  shows "gameweeks (foldl f db xs) = gameweeks db"
  by (induction xs arbitrary: db) (simp_all add: assms)

text \<open>The first loop on the teams table.\<close>

lemma team_loop_fantasy_teams:
  assumes "same_scores db0 db" and "distinct ts"
  shows "fantasy_teams (foldl (team_step gw) db ts) =
           map (credited db0 gw (set ts)) (fantasy_teams db)"
  using assms
proof (induction ts arbitrary: db)
  case Nil
  show ?case by (simp add: credited_def)
next
  case (Cons t ts)
  have s: "same_scores db0 (team_step gw db t)"
    using Cons.prems(1) team_step_same_scores same_scores_trans by blast
  have c: "calculate_fantasy_team_points db t gw = calculate_fantasy_team_points db0 t gw"
    using Cons.prems(1) by (rule same_scores_calculate)
  from Cons.prems(2) have d: "distinct ts" and n: "t \<notin> set ts" by simp_all
  have "fantasy_teams (foldl (team_step gw) db (t # ts)) =
          map (credited db0 gw (set ts)) (fantasy_teams (team_step gw db t))"
    using Cons.IH [OF s d] by simp
  also have "\<dots> = map (credited db0 gw (set (t # ts))) (fantasy_teams db)"
    using n by (auto simp: team_step_fantasy_teams add_team_points_def c credited_def)
  finally show ?case .
qed

subsection \<open>Upsert\<close>

lemma tgp_key_eq: "tgp_key row = (t, gw) \<longleftrightarrow> tgp_fantasy_team_id row = t \<and> tgp_gameweek row = gw"
  by (auto simp: tgp_key_def)

lemma upsert_keys:
  "map tgp_key (upsert_gameweek_points tbl t gw p) =
     (if (t, gw) \<in> set (map tgp_key tbl) then map tgp_key tbl else map tgp_key tbl @ [(t, gw)])"
proof -
  have "(\<exists>row \<in> set tbl. tgp_fantasy_team_id row = t \<and> tgp_gameweek row = gw) \<longleftrightarrow>
          (t, gw) \<in> set (map tgp_key tbl)"
    by (auto simp: tgp_key_def image_iff)
  moreover have "map tgp_key (map (\<lambda>row. if tgp_fantasy_team_id row = t \<and> tgp_gameweek row = gw
                       then row\<lparr>points := Some p\<rparr> else row) tbl) = map tgp_key tbl"
    by (simp add: tgp_key_def)
  ultimately show ?thesis
    by (simp add: upsert_gameweek_points_def tgp_key_def)
qed

lemma upsert_distinct:
  "distinct (map tgp_key tbl) \<Longrightarrow> distinct (map tgp_key (upsert_gameweek_points tbl t gw p))"
  by (simp add: upsert_keys)

lemma records_of_key: "records_of tbl t gw = filter (\<lambda>row. tgp_key row = (t, gw)) tbl"
  by (simp add: records_of_def tgp_key_eq)

lemma upsert_records_same:
  assumes "distinct (map tgp_key tbl)"
  shows "map points (records_of (upsert_gameweek_points tbl t gw p) t gw) = [Some p]"
proof (cases "\<exists>row \<in> set tbl. tgp_fantasy_team_id row = t \<and> tgp_gameweek row = gw")
  case True
  then obtain x where x: "x \<in> set tbl" "tgp_key x = (t, gw)"
    by (auto simp: tgp_key_eq)
  from filter_unique_key [OF assms x(1)] x(2) have "records_of tbl t gw = [x]"
    by (simp add: records_of_key)
  moreover have "records_of (map (\<lambda>row. if tgp_fantasy_team_id row = t \<and> tgp_gameweek row = gw
                       then row\<lparr>points := Some p\<rparr> else row) tbl) t gw =
      map (\<lambda>row. row\<lparr>points := Some p\<rparr>) (records_of tbl t gw)"
    by (induction tbl) (simp_all add: records_of_def)
  ultimately show ?thesis using True by (simp add: upsert_gameweek_points_def)
next
  case False
  then have "records_of tbl t gw = []"
    by (auto simp: records_of_def filter_empty_conv)
  moreover from False have "upsert_gameweek_points tbl t gw p =
      tbl @ [\<lparr> tgp_fantasy_team_id = t, tgp_gameweek = gw, points = Some p, rank_in_league = None \<rparr>]"
    by (simp only: upsert_gameweek_points_def if_False)
  ultimately show ?thesis
    by (simp add: records_of_def)
qed

lemma upsert_records_other:
  assumes "(t', gw') \<noteq> (t, gw)"
  shows "records_of (upsert_gameweek_points tbl t gw p) t' gw' = records_of tbl t' gw'"
proof -
  have "records_of (map (\<lambda>row. if tgp_fantasy_team_id row = t \<and> tgp_gameweek row = gw
                       then row\<lparr>points := Some p\<rparr> else row) tbl) t' gw' = records_of tbl t' gw'"
    using assms by (induction tbl) (auto simp: records_of_def)
  with assms show ?thesis
    by (auto simp: upsert_gameweek_points_def records_of_def)
qed

lemma points_records_eq:
  "points_records db t gw = map points (records_of (fantasy_team_gameweek_points db) t gw)"
  by (simp add: points_records_def records_of_def)

lemma team_loop_distinct:
  "distinct (map tgp_key (fantasy_team_gameweek_points db)) \<Longrightarrow>
     distinct (map tgp_key (fantasy_team_gameweek_points (foldl (team_step gw) db ts)))"
  by (induction ts arbitrary: db) (simp_all add: team_step_points upsert_distinct)

lemma team_loop_points:
  assumes "distinct (map tgp_key (fantasy_team_gameweek_points db))" and "same_scores db0 db"
  shows "points_records (foldl (team_step gw) db ts) t gw =
           (if t \<in> set ts then [Some (calculate_fantasy_team_points db0 t gw)]
            else points_records db t gw)"
  using assms
proof (induction ts arbitrary: db)
  case Nil
  show ?case by simp
next
  case (Cons a ts)
  have s: "same_scores db0 (team_step gw db a)"
    using Cons.prems(2) team_step_same_scores same_scores_trans by blast
  have c: "calculate_fantasy_team_points db a gw = calculate_fantasy_team_points db0 a gw"
    using Cons.prems(2) by (rule same_scores_calculate)
  have d: "distinct (map tgp_key (fantasy_team_gameweek_points (team_step gw db a)))"
    using Cons.prems(1) by (simp add: team_step_points upsert_distinct)
  have here: "points_records (team_step gw db a) t gw =
                (if t = a then [Some (calculate_fantasy_team_points db0 t gw)]
                 else points_records db t gw)"
    using Cons.prems(1)
    by (simp add: points_records_eq team_step_points upsert_records_same upsert_records_other c)
  show ?case
    using Cons.IH [OF d s] here by auto
qed

subsection \<open>The second loop changes ranks only\<close>

lemma update_rank_in_league_data:
  "map tgp_data (update_rank_in_league tbl ranked gw) = map tgp_data tbl"
  by (simp add: update_rank_in_league_def tgp_data_def split: option.splits)

lemma update_rank_data: "map ft_data (update_rank tbl ranked) = map ft_data tbl"
  by (simp add: update_rank_def ft_data_def split: option.splits)

lemma league_step_tgp_data:
  "map tgp_data (fantasy_team_gameweek_points (league_step ro gw db l)) =
     map tgp_data (fantasy_team_gameweek_points db)"
  by (simp add: league_step_def Let_def update_rank_in_league_data)

lemma league_step_ft_data:
  "map ft_data (fantasy_teams (league_step ro gw db l)) = map ft_data (fantasy_teams db)"
  by (simp add: league_step_def Let_def update_rank_data)

lemma league_loop_tgp_data:
  "map tgp_data (fantasy_team_gameweek_points (foldl (league_step ro gw) db ls)) =
     map tgp_data (fantasy_team_gameweek_points db)"
  by (induction ls arbitrary: db) (simp_all add: league_step_tgp_data)

lemma league_loop_ft_data:
  "map ft_data (fantasy_teams (foldl (league_step ro gw) db ls)) = map ft_data (fantasy_teams db)"
  by (induction ls arbitrary: db) (simp_all add: league_step_ft_data)

text \<open>What is read off the data of the rows.\<close>

lemma keys_of_data: "map tgp_key tbl = map (\<lambda>(t, g, p). (t, g)) (map tgp_data tbl)"
  by (simp add: tgp_key_def tgp_data_def)

lemma ids_of_data: "map fantasy_team_id tbl = map fst (map ft_data tbl)"
  by (simp add: ft_data_def)

lemma points_records_of_data:
  "points_records db t gw =
     map (\<lambda>(t', g, p). p)
       (filter (\<lambda>(t', g, p). t' = t \<and> g = gw) (map tgp_data (fantasy_team_gameweek_points db)))"
  by (simp add: points_records_def filter_map o_def tgp_data_def)

lemma team_totals_of_data:
  "team_totals db t =
     map (\<lambda>(i, l, tp, gp). tp) (filter (\<lambda>(i, l, tp, gp). i = t) (map ft_data (fantasy_teams db)))"
  by (simp add: team_totals_def filter_map o_def ft_data_def)

lemma league_team_ids_of_data:
  "league_team_ids db =
     map fst (filter (\<lambda>(i, l, tp, gp). l \<noteq> None) (map ft_data (fantasy_teams db)))"
  by (simp add: league_team_ids_def filter_map o_def ft_data_def)

lemma credited_data:
  "ft_data (credited db gw ts ft) =
     (fantasy_team_id ft, league_id ft,
      if fantasy_team_id ft \<in> ts
      then (ft_total_points ft + calculate_fantasy_team_points db (fantasy_team_id ft) gw,
            calculate_fantasy_team_points db (fantasy_team_id ft) gw)
      else (ft_total_points ft, gameweek_points ft))"
  by (simp add: credited_def ft_data_def)

subsection \<open>A successful run\<close>

lemma mark_status_numbers:
  "map gameweek_number (mark_status tbl gw st) = map gameweek_number tbl"
  by (simp add: mark_status_def)

lemma gameweek_exists_iff:
  "(\<exists>g \<in> set tbl. gameweek_number g = gw) \<longleftrightarrow> gw \<in> set (map gameweek_number tbl)"
  by auto

lemma finalize_gameweek_found:
  assumes "\<exists>g \<in> set (gameweeks db). gameweek_number g = gw"
  shows "finalize_gameweek ro db gw =
           ((foldl (league_step ro gw) (after_teams db gw) (league_ids (after_teams db gw)))
              \<lparr>gameweeks := mark_status (gameweeks (foldl (league_step ro gw) (after_teams db gw)
                   (league_ids (after_teams db gw)))) gw ''finalized''\<rparr>, None)"
  using assms by (simp add: finalize_gameweek_def Let_def after_teams_def)

lemma finalize_gameweek_facts:
  assumes ex: "\<exists>g \<in> set (gameweeks db). gameweek_number g = gw"
  shows "snd (finalize_gameweek ro db gw) = None"
    and "same_scores db (fst (finalize_gameweek ro db gw))"
    and "map tgp_data (fantasy_team_gameweek_points (fst (finalize_gameweek ro db gw))) =
           map tgp_data (fantasy_team_gameweek_points (after_teams db gw))"
    and "map ft_data (fantasy_teams (fst (finalize_gameweek ro db gw))) =
           map ft_data (fantasy_teams (after_teams db gw))"
    and "\<exists>g \<in> set (gameweeks (fst (finalize_gameweek ro db gw))). gameweek_number g = gw"
proof -
  let ?db1 = "after_teams db gw"
  let ?db2 = "foldl (league_step ro gw) ?db1 (league_ids ?db1)"
  note f = finalize_gameweek_found [OF ex]
  show "snd (finalize_gameweek ro db gw) = None" by (simp add: f)
  have "same_scores db ?db1"
    unfolding after_teams_def by (rule foldl_same_scores) (rule team_step_same_scores)
  moreover have "same_scores ?db1 ?db2"
    by (rule foldl_same_scores) (rule league_step_same_scores)
  ultimately have "same_scores db ?db2" by (rule same_scores_trans)
  then show "same_scores db (fst (finalize_gameweek ro db gw))"
    by (simp add: f same_scores_def)
  show "map tgp_data (fantasy_team_gameweek_points (fst (finalize_gameweek ro db gw))) =
           map tgp_data (fantasy_team_gameweek_points ?db1)"
    by (simp add: f league_loop_tgp_data)
  show "map ft_data (fantasy_teams (fst (finalize_gameweek ro db gw))) =
           map ft_data (fantasy_teams ?db1)"
    by (simp add: f league_loop_ft_data)
  have "gameweeks ?db2 = gameweeks db"
    by (simp add: after_teams_def foldl_gameweeks league_step_gameweeks team_step_gameweeks)
  then have "map gameweek_number (gameweeks (fst (finalize_gameweek ro db gw))) =
               map gameweek_number (gameweeks db)"
    by (simp add: f mark_status_numbers)
  with ex show "\<exists>g \<in> set (gameweeks (fst (finalize_gameweek ro db gw))). gameweek_number g = gw"
    by (simp add: gameweek_exists_iff)
qed

lemma league_team_ids_distinct:
  "distinct (map fantasy_team_id (fantasy_teams db)) \<Longrightarrow> distinct (league_team_ids db)"
  by (simp add: league_team_ids_def distinct_map_filter)

lemma after_teams_ft_data:
  assumes "distinct (map fantasy_team_id (fantasy_teams db))"
  shows "map ft_data (fantasy_teams (after_teams db gw)) =
           map (\<lambda>ft. ft_data (credited db gw (set (league_team_ids db)) ft)) (fantasy_teams db)"
  unfolding after_teams_def
  by (simp add: team_loop_fantasy_teams [OF same_scores_refl league_team_ids_distinct [OF assms]])

lemma finalize_gameweek_well_formed:
  assumes ex: "\<exists>g \<in> set (gameweeks db). gameweek_number g = gw" and wf: "well_formed db"
  shows "well_formed (fst (finalize_gameweek ro db gw))"
proof -
  from wf have d1: "distinct (map fantasy_team_id (fantasy_teams db))"
    and d2: "distinct (map tgp_key (fantasy_team_gameweek_points db))"
    by (simp_all add: well_formed_def)
  have "map fantasy_team_id (fantasy_teams (fst (finalize_gameweek ro db gw))) =
          map fantasy_team_id (fantasy_teams db)"
    by (simp add: ids_of_data finalize_gameweek_facts(4) [OF ex] after_teams_ft_data [OF d1]
        credited_data o_def)
  moreover have "map tgp_key (fantasy_team_gameweek_points (fst (finalize_gameweek ro db gw))) =
          map tgp_key (fantasy_team_gameweek_points (after_teams db gw))"
    by (simp add: keys_of_data finalize_gameweek_facts(3) [OF ex])
  moreover have "distinct (map tgp_key (fantasy_team_gameweek_points (after_teams db gw)))"
    unfolding after_teams_def using d2 by (rule team_loop_distinct)
  ultimately show ?thesis using d1 by (simp add: well_formed_def)
qed

lemma finalize_gameweek_points_records:
  assumes ex: "\<exists>g \<in> set (gameweeks db). gameweek_number g = gw" and wf: "well_formed db"
    and t: "t \<in> set (league_team_ids db)"
  shows "points_records (fst (finalize_gameweek ro db gw)) t gw =
           [Some (calculate_fantasy_team_points db t gw)]"
proof -
  from wf have d2: "distinct (map tgp_key (fantasy_team_gameweek_points db))"
    by (simp add: well_formed_def)
  have "points_records (fst (finalize_gameweek ro db gw)) t gw = points_records (after_teams db gw) t gw"
    by (simp add: points_records_of_data finalize_gameweek_facts(3) [OF ex])
  also have "\<dots> = [Some (calculate_fantasy_team_points db t gw)]"
    unfolding after_teams_def using t by (simp add: team_loop_points [OF d2 same_scores_refl])
  finally show ?thesis .
qed

lemma finalize_gameweek_team_totals:
  assumes ex: "\<exists>g \<in> set (gameweeks db). gameweek_number g = gw" and wf: "well_formed db"
    and ft: "ft \<in> set (fantasy_teams db)" and l: "league_id ft \<noteq> None"
  shows "team_totals (fst (finalize_gameweek ro db gw)) (fantasy_team_id ft) =
           [ft_total_points ft + calculate_fantasy_team_points db (fantasy_team_id ft) gw]"
    and "\<exists>ft' \<in> set (fantasy_teams (fst (finalize_gameweek ro db gw))).
           fantasy_team_id ft' = fantasy_team_id ft \<and> league_id ft' = league_id ft \<and>
           ft_total_points ft' =
             ft_total_points ft + calculate_fantasy_team_points db (fantasy_team_id ft) gw"
proof -
  let ?db' = "fst (finalize_gameweek ro db gw)"
  let ?c = "credited db gw (set (league_team_ids db))"
  from wf have d1: "distinct (map fantasy_team_id (fantasy_teams db))"
    by (simp add: well_formed_def)
  have m: "map ft_data (fantasy_teams ?db') = map (\<lambda>ft. ft_data (?c ft)) (fantasy_teams db)"
    by (simp add: finalize_gameweek_facts(4) [OF ex] after_teams_ft_data [OF d1])
  from ft l have mem: "fantasy_team_id ft \<in> set (league_team_ids db)"
    by (auto simp: league_team_ids_def)
  have one: "filter (\<lambda>x. fantasy_team_id x = fantasy_team_id ft) (fantasy_teams db) = [ft]"
    using d1 ft by (rule filter_unique_key)
  have "team_totals ?db' (fantasy_team_id ft) =
          map (\<lambda>x. ft_total_points (?c x))
            (filter (\<lambda>x. fantasy_team_id x = fantasy_team_id ft) (fantasy_teams db))"
    by (simp add: team_totals_of_data m filter_map o_def credited_data split_def)
       (simp add: credited_def)
  with one mem show "team_totals ?db' (fantasy_team_id ft) =
           [ft_total_points ft + calculate_fantasy_team_points db (fantasy_team_id ft) gw]"
    by (simp add: credited_def)
  from ft have "ft_data (?c ft) \<in> set (map ft_data (fantasy_teams ?db'))"
    by (simp add: m)
  then obtain ft' where "ft' \<in> set (fantasy_teams ?db')" "ft_data ft' = ft_data (?c ft)"
    by auto
  with mem show "\<exists>ft' \<in> set (fantasy_teams ?db').
           fantasy_team_id ft' = fantasy_team_id ft \<and> league_id ft' = league_id ft \<and>
           ft_total_points ft' =
             ft_total_points ft + calculate_fantasy_team_points db (fantasy_team_id ft) gw"
    by (auto simp: ft_data_def credited_def intro!: bexI [of _ ft'])
qed

text \<open>
  Claim C6. Called with a gameweek number that no row of \<open>gameweeks\<close> carries,
  \<open>finalize_gameweek\<close> raises its error and returns every table as it was given: the
  check is the first statement, before any write.
\<close>

theorem finalize_missing_gameweek:
  assumes "\<not> (\<exists>g \<in> set (gameweeks db). gameweek_number g = p_gameweek)"
  shows "finalize_gameweek ro db p_gameweek = (db, Some (Gameweek_does_not_exist p_gameweek))"
  using assms by (simp add: finalize_gameweek_def)

theorem finalize_missing_gameweek_witness:
  "map gameweek_number (gameweeks finalize_scenario) = [1, 2] \<and>
   finalize_gameweek stored_orders finalize_scenario 9 = (finalize_scenario, Some (Gameweek_does_not_exist 9))"
proof -
  have h: "\<not> (\<exists>g \<in> set (gameweeks finalize_scenario). gameweek_number g = 9)"
    by code_simp
  have m: "map gameweek_number (gameweeks finalize_scenario) = [1, 2]"
    by code_simp
  from m finalize_missing_gameweek [OF h] show ?thesis
    by simp
qed

text \<open>
  Claim C3. On well-formed tables, for a team in a league: a run of
  \<open>finalize_gameweek\<close> adds the gameweek's computed points to the team's cumulative
  total, and a second run on the result adds the same points again, so that the total
  after two runs is the total after one run plus the gameweek's points; the points
  record of the team and gameweek holds the same value after either run. This is so
  whatever order the engine ranks in, in either run.
\<close>

theorem refinalize_adds_again:
  assumes wf: "well_formed db"
    and ex: "\<exists>g \<in> set (gameweeks db). gameweek_number g = gw"
    and ft: "ft \<in> set (fantasy_teams db)" and l: "league_id ft \<noteq> None"
  shows "let t = fantasy_team_id ft;
             pts = calculate_fantasy_team_points db t gw;
             db1 = fst (finalize_gameweek ro db gw);
             db2 = fst (finalize_gameweek ro' db1 gw)
         in snd (finalize_gameweek ro db gw) = None \<and> snd (finalize_gameweek ro' db1 gw) = None \<and>
            calculate_fantasy_team_points db1 t gw = pts \<and>
            team_totals db t = [ft_total_points ft] \<and>
            team_totals db1 t = [ft_total_points ft + pts] \<and>
            team_totals db2 t = [ft_total_points ft + pts + pts] \<and>
            points_records db1 t gw = [Some pts] \<and>
            points_records db2 t gw = [Some pts]"
proof -
  let ?t = "fantasy_team_id ft"
  let ?pts = "calculate_fantasy_team_points db ?t gw"
  let ?db1 = "fst (finalize_gameweek ro db gw)"
  let ?db2 = "fst (finalize_gameweek ro' ?db1 gw)"
  have wf1: "well_formed ?db1" using ex wf by (rule finalize_gameweek_well_formed)
  have ex1: "\<exists>g \<in> set (gameweeks ?db1). gameweek_number g = gw"
    using ex by (rule finalize_gameweek_facts(5))
  have same: "calculate_fantasy_team_points ?db1 ?t gw = ?pts"
    using finalize_gameweek_facts(2) [OF ex] by (rule same_scores_calculate)
  from finalize_gameweek_team_totals(2) [OF ex wf ft l] obtain ft1 where
    ft1: "ft1 \<in> set (fantasy_teams ?db1)" "fantasy_team_id ft1 = ?t" "league_id ft1 = league_id ft"
      "ft_total_points ft1 = ft_total_points ft + ?pts"
    by blast
  from ft l have m: "?t \<in> set (league_team_ids db)"
    by (auto simp: league_team_ids_def)
  from ft1(1,3) l have "fantasy_team_id ft1 \<in> set (league_team_ids ?db1)"
    by (auto simp: league_team_ids_def)
  with ft1(2) have m1: "?t \<in> set (league_team_ids ?db1)"
    by simp
  from wf have d1: "distinct (map fantasy_team_id (fantasy_teams db))"
    by (simp add: well_formed_def)
  have t0: "team_totals db ?t = [ft_total_points ft]"
    by (simp add: team_totals_def filter_unique_key [OF d1 ft])
  have t1: "team_totals ?db1 ?t = [ft_total_points ft + ?pts]"
    using ex wf ft l by (rule finalize_gameweek_team_totals(1))
  have t2: "team_totals ?db2 ?t = [ft_total_points ft + ?pts + ?pts]"
    using finalize_gameweek_team_totals(1) [OF ex1 wf1 ft1(1)] ft1 l same by simp
  have p1: "points_records ?db1 ?t gw = [Some ?pts]"
    using ex wf m by (rule finalize_gameweek_points_records)
  have p2: "points_records ?db2 ?t gw = [Some ?pts]"
    using finalize_gameweek_points_records [OF ex1 wf1 m1] same by simp
  show ?thesis
    using finalize_gameweek_facts(1) [OF ex] finalize_gameweek_facts(1) [OF ex1] same t0 t1 t2 p1 p2
    by (simp add: Let_def)
qed

theorem refinalize_adds_again_witness:
  "well_formed finalize_scenario \<and>
   (\<exists>g \<in> set (gameweeks finalize_scenario). gameweek_number g = 1) \<and>
   finalize_scenario_team \<in> set (fantasy_teams finalize_scenario) \<and>
   league_id finalize_scenario_team \<noteq> None \<and>
   calculate_fantasy_team_points finalize_scenario 1 1 = 12 \<and>
   team_totals finalize_scenario 1 = [30] \<and>
   team_totals (fst (finalize_gameweek stored_orders finalize_scenario 1)) 1 = [42] \<and>
   team_totals (fst (finalize_gameweek stored_orders (fst (finalize_gameweek stored_orders finalize_scenario 1)) 1)) 1 = [54] \<and>
   points_records (fst (finalize_gameweek stored_orders finalize_scenario 1)) 1 1 = [Some 12] \<and>
   points_records (fst (finalize_gameweek stored_orders (fst (finalize_gameweek stored_orders finalize_scenario 1)) 1)) 1 1 = [Some 12]"
proof -
  have wf: "well_formed finalize_scenario"
    by code_simp
  have ex: "\<exists>g \<in> set (gameweeks finalize_scenario). gameweek_number g = 1"
    by code_simp
  have ft: "finalize_scenario_team \<in> set (fantasy_teams finalize_scenario)"
    by code_simp
  have l: "league_id finalize_scenario_team \<noteq> None"
    by (simp add: finalize_scenario_team_def)
  have i: "fantasy_team_id finalize_scenario_team = 1" "ft_total_points finalize_scenario_team = 30"
    by (simp_all add: finalize_scenario_team_def)
  have c: "calculate_fantasy_team_points finalize_scenario 1 1 = 12"
    by code_simp
  from refinalize_adds_again [OF wf ex ft l, where ro = stored_orders and ro' = stored_orders]
    wf ex ft l c show ?thesis
    by (simp add: Let_def i)
qed

section \<open>Properties of the status operations\<close>

text \<open>
  When no row carries the number, the \<^verbatim>\<open>UPDATE\<close> of \<open>set_gameweek_status\<close> changes
  nothing: the tables at the point of the \<^verbatim>\<open>RAISE\<close> are those the call was given.
\<close>

lemma mark_status_absent:
  "\<not> (\<exists>g \<in> set tbl. gameweek_number g = p_gameweek) \<Longrightarrow> mark_status tbl p_gameweek p_status = tbl"
  by (simp add: mark_status_def map_idI)

text \<open>
  Claim C7, as amended. \<open>set_gameweek_status\<close> does not hold a finalized gameweek: for
  each of the four valid statuses and each existing gameweek number it succeeds and
  gives the rows of that number the requested status, whatever they had, and leaves the
  other rows as they were. It is the administration console that offers no action on a
  finalized gameweek.
\<close>

theorem set_gameweek_status_overwrites:
  assumes "p_status \<in> set [''upcoming'', ''active'', ''locked'', ''finalized'']"
    and "\<exists>g \<in> set (gameweeks db). gameweek_number g = p_gameweek"
  shows "snd (set_gameweek_status db p_gameweek p_status) = None \<and>
         map gameweek_number (gameweeks (fst (set_gameweek_status db p_gameweek p_status))) =
           map gameweek_number (gameweeks db) \<and>
         map status (gameweeks (fst (set_gameweek_status db p_gameweek p_status))) =
           map (\<lambda>g. if gameweek_number g = p_gameweek then p_status else status g) (gameweeks db) \<and>
         console_actions ''finalized'' all_matches_completed = []"
proof -
  from assms have "set_gameweek_status db p_gameweek p_status =
      (db\<lparr>gameweeks := mark_status (gameweeks db) p_gameweek p_status\<rparr>, None)"
    by (simp add: set_gameweek_status_def Let_def)
  then show ?thesis
    by (simp add: mark_status_def console_actions_def)
qed

theorem set_gameweek_status_overwrites_witness:
  "map status (gameweeks status_scenario) = [''finalized'', ''active''] \<and>
   snd (set_gameweek_status status_scenario 2 ''locked'') = None \<and>
   map status (gameweeks (fst (set_gameweek_status status_scenario 2 ''locked''))) =
     [''finalized'', ''locked''] \<and>
   console_actions ''finalized'' True = []"
proof -
  have v: "''locked'' \<in> set [''upcoming'', ''active'', ''locked'', ''finalized'']"
    by simp
  have e: "\<exists>g \<in> set (gameweeks status_scenario). gameweek_number g = 2"
    by code_simp
  have m: "map status (gameweeks status_scenario) = [''finalized'', ''active'']"
    by code_simp
  have n: "map (\<lambda>g. if gameweek_number g = 2 then ''locked'' else status g)
             (gameweeks status_scenario) = [''finalized'', ''locked'']"
    by code_simp
  from set_gameweek_status_overwrites [OF v e, of True] m n show ?thesis
    by simp
qed

text \<open>
  Against claim C7 as stated: \<open>set_gameweek_status\<close> moves the finalized gameweek 1
  back to upcoming.
\<close>

theorem finalized_not_terminal_counterexample:
  "map status (gameweeks status_scenario) = [''finalized'', ''active''] \<and>
   snd (set_gameweek_status status_scenario 1 ''upcoming'') = None \<and>
   map status (gameweeks (fst (set_gameweek_status status_scenario 1 ''upcoming''))) =
     [''upcoming'', ''active'']"
  by code_simp

lemma update_gameweek_status_rows:
  "map (\<lambda>g. (gw_number g, start_time g, end_time g, is_current g)) (update_gameweek_status now tbl) =
     map (\<lambda>g. (gw_number g, start_time g, end_time g, Some (in_window now g))) tbl"
  by (simp add: update_gameweek_status_def Let_def in_window_def split: list.splits)

lemma current_gameweeks_length:
  "length (current_gameweeks (update_gameweek_status now tbl)) = length (filter (in_window now) tbl)"
proof -
  have "length (current_gameweeks (update_gameweek_status now tbl)) =
        length (filter (\<lambda>(n, s, e, c). c = Some True)
          (map (\<lambda>g. (gw_number g, start_time g, end_time g, is_current g)) (update_gameweek_status now tbl)))"
    by (simp add: current_gameweeks_def filter_map o_def)
  also have "\<dots> = length (filter (in_window now) tbl)"
    by (simp only: update_gameweek_status_rows) (simp add: filter_map o_def)
  finally show ?thesis .
qed

lemma disjoint_windows_at_most_one:
  assumes "distinct (map gw_number tbl)" and "disjoint_windows tbl"
  shows "length (filter (in_window now) tbl) \<le> 1"
  using assms
proof (induction tbl)
  case Nil
  show ?case by simp
next
  case (Cons g tbl)
  from Cons.prems have d: "distinct (map gw_number tbl)" and dw: "disjoint_windows tbl"
    by (simp_all add: disjoint_windows_def)
  show ?case
  proof (cases "in_window now g")
    case True
    have "\<not> in_window now g'" if "g' \<in> set tbl" for g'
    proof -
      from that Cons.prems(1) have "gw_number g \<noteq> gw_number g'" by auto
      with that Cons.prems(2) have "end_time g < start_time g' \<or> end_time g' < start_time g"
        by (simp add: disjoint_windows_def)
      with True show ?thesis by (auto simp: in_window_def)
    qed
    then have "filter (in_window now) tbl = []" by (simp add: filter_empty_conv)
    with True show ?thesis by simp
  next
    case False
    with Cons.IH [OF d dw] show ?thesis by simp
  qed
qed

text \<open>
  Claim C8, as amended. After \<open>update_gameweek_status\<close> a gameweek is flagged current
  exactly when its window from start to end contains the current time, so as many are
  current as windows contain it: none when no window does, and at most one when
  gameweek numbers are unique and the windows of different gameweeks do not overlap.
\<close>

theorem current_flags_follow_windows:
  "map is_current (update_gameweek_status now tbl) = map (\<lambda>g. Some (in_window now g)) tbl \<and>
   length (current_gameweeks (update_gameweek_status now tbl)) = length (filter (in_window now) tbl) \<and>
   (distinct (map gw_number tbl) \<and> disjoint_windows tbl \<longrightarrow>
      length (current_gameweeks (update_gameweek_status now tbl)) \<le> 1)"
proof -
  have "map (\<lambda>(n, s, e, c). c)
          (map (\<lambda>g. (gw_number g, start_time g, end_time g, is_current g)) (update_gameweek_status now tbl)) =
        map (\<lambda>(n, s, e, c). c)
          (map (\<lambda>g. (gw_number g, start_time g, end_time g, Some (in_window now g))) tbl)"
    by (simp only: update_gameweek_status_rows)
  then have "map is_current (update_gameweek_status now tbl) = map (\<lambda>g. Some (in_window now g)) tbl"
    by (simp add: o_def)
  moreover have "length (filter (in_window now) tbl) \<le> 1"
    if "distinct (map gw_number tbl) \<and> disjoint_windows tbl"
    using that disjoint_windows_at_most_one [of tbl now] by blast
  ultimately show ?thesis
    by (simp only: current_gameweeks_length) simp
qed

theorem current_flags_follow_windows_witness:
  "distinct (map gw_number seeded_gameweeks) \<and> disjoint_windows seeded_gameweeks \<and>
   map is_current (update_gameweek_status 2000 seeded_gameweeks) = [Some True, Some False] \<and>
   length (current_gameweeks (update_gameweek_status 2000 seeded_gameweeks)) \<le> 1"
proof -
  have d: "distinct (map gw_number seeded_gameweeks)"
    by code_simp
  have w: "disjoint_windows seeded_gameweeks"
    by code_simp
  have m: "map (\<lambda>g. Some (in_window 2000 g)) seeded_gameweeks = [Some True, Some False]"
    by code_simp
  from current_flags_follow_windows [of 2000 seeded_gameweeks] d w m show ?thesis
    by simp
qed

text \<open>
  Against claim C8 as stated: between the first and the second seeded window no
  gameweek is current.
\<close>

theorem no_current_gameweek_counterexample:
  "current_gameweeks (update_gameweek_status 5000 seeded_gameweeks) = [] \<and>
   length (current_gameweeks (update_gameweek_status 5000 seeded_gameweeks)) \<noteq> 1"
  by code_simp

section \<open>Properties of the regeneration\<close>

lemma insert_gameweek_fields:
  "map gameweek_fields (gameweeks (insert_gameweek db r)) = map gameweek_fields (gameweeks db) @ [r]"
  by (cases r) (simp add: insert_gameweek_def gameweek_fields_def)

lemma insert_gameweek_matches: "real_matches (insert_gameweek db r) = real_matches db"
  by (cases r) (simp add: insert_gameweek_def)

lemma insert_loop_fields:
  "map gameweek_fields (gameweeks (foldl insert_gameweek db rs)) =
     map gameweek_fields (gameweeks db) @ rs"
  by (induction rs arbitrary: db) (simp_all add: insert_gameweek_fields)

lemma insert_loop_matches: "real_matches (foldl insert_gameweek db rs) = real_matches db"
  by (induction rs arbitrary: db) (simp_all add: insert_gameweek_matches)

lemma generate_fields:
  "map gameweek_fields (gameweeks (generate_gameweeks_from_matches db)) =
     gameweek_groups (real_matches db)"
  by (simp add: generate_gameweeks_from_matches_def insert_loop_fields)

lemma generate_matches:
  "real_matches (generate_gameweeks_from_matches db) = real_matches db"
  by (simp add: generate_gameweeks_from_matches_def insert_loop_matches)

lemma length_filter_eq_iff: "length (filter P xs) = length xs \<longleftrightarrow> (\<forall>x \<in> set xs. P x)"
proof (induction xs)
  case Nil
  show ?case by simp
next
  case (Cons x xs)
  have "length (filter P xs) \<le> length xs" by simp
  then have "length (filter P xs) \<noteq> Suc (length xs)" by arith
  with Cons show ?case by auto
qed

lemma fold_min_Min: "xs \<noteq> [] \<Longrightarrow> fold min (tl xs) (hd xs) = Min (set xs)"
  by (cases xs) (simp_all add: Min.set_eq_fold [symmetric])

lemma fold_max_Max: "xs \<noteq> [] \<Longrightarrow> fold max (tl xs) (hd xs) = Max (set xs)"
  by (cases xs) (simp_all add: Max.set_eq_fold [symmetric])

lemma gameweek_groups_numbers:
  "map fst (gameweek_groups ms) =
     sort (remdups (map rm_gameweek (filter (\<lambda>m. match_date m \<noteq> None) ms)))"
  by (simp add: gameweek_groups_def Let_def o_def)

lemma gameweek_groups_row:
  assumes "(n, s, e, st) \<in> set (gameweek_groups ms)"
  shows "match_days ms n \<noteq> [] \<and> s = Min (set (match_days ms n)) \<and> e = Max (set (match_days ms n)) \<and>
         st = (if \<forall>m \<in> set (dated_matches ms n). rm_status m = ''completed''
               then ''finalized'' else ''upcoming'')"
proof -
  let ?dated = "filter (\<lambda>m. match_date m \<noteq> None) ms"
  have gg: "gameweek_groups ms =
      map (\<lambda>k. (k, fold min (tl (match_days ms k)) (hd (match_days ms k)),
                fold max (tl (match_days ms k)) (hd (match_days ms k)),
                if length (dated_matches ms k) =
                   length (filter (\<lambda>m. rm_status m = ''completed'') (dated_matches ms k))
                then ''finalized'' else ''upcoming''))
        (sort (remdups (map rm_gameweek ?dated)))"
    unfolding gameweek_groups_def Let_def match_days_def dated_matches_def by simp
  from assms have n: "n \<in> set (map rm_gameweek ?dated)"
    and s: "s = fold min (tl (match_days ms n)) (hd (match_days ms n))"
    and e: "e = fold max (tl (match_days ms n)) (hd (match_days ms n))"
    and st: "st = (if length (dated_matches ms n) =
                      length (filter (\<lambda>m. rm_status m = ''completed'') (dated_matches ms n))
                   then ''finalized'' else ''upcoming'')"
    unfolding gg by auto
  from n have ne: "match_days ms n \<noteq> []"
    by (auto simp: match_days_def dated_matches_def filter_empty_conv)
  have "length (dated_matches ms n) =
          length (filter (\<lambda>m. rm_status m = ''completed'') (dated_matches ms n)) \<longleftrightarrow>
        (\<forall>m \<in> set (dated_matches ms n). rm_status m = ''completed'')"
    using length_filter_eq_iff [of "\<lambda>m. rm_status m = ''completed''" "dated_matches ms n"]
    by auto
  with ne s e st show ?thesis
    by (simp add: fold_min_Min fold_max_Max)
qed

text \<open>
  Claim C9. Running \<open>generate_gameweeks_from_matches\<close> on its own result gives the same
  gameweek rows, up to their serial identifiers, as running it once, and leaves the
  matches alone. The rows are those of the gameweek numbers of the dated matches, in
  ascending order, each with the earliest and the latest day of its matches and with
  status finalized when all of them are completed and upcoming otherwise.
\<close>

theorem regenerate_idempotent:
  "map gameweek_fields (gameweeks (generate_gameweeks_from_matches (generate_gameweeks_from_matches db))) =
     map gameweek_fields (gameweeks (generate_gameweeks_from_matches db)) \<and>
   real_matches (generate_gameweeks_from_matches db) = real_matches db \<and>
   map fst (map gameweek_fields (gameweeks (generate_gameweeks_from_matches db))) =
     sort (remdups (map rm_gameweek (filter (\<lambda>m. match_date m \<noteq> None) (real_matches db)))) \<and>
   (\<forall>g \<in> set (gameweeks (generate_gameweeks_from_matches db)).
      match_days (real_matches db) (gameweek_number g) \<noteq> [] \<and>
      start_date g = Min (set (match_days (real_matches db) (gameweek_number g))) \<and>
      end_date g = Max (set (match_days (real_matches db) (gameweek_number g))) \<and>
      status g = (if \<forall>m \<in> set (dated_matches (real_matches db) (gameweek_number g)).
                       rm_status m = ''completed''
                  then ''finalized'' else ''upcoming''))"
proof (intro conjI ballI)
  show "map gameweek_fields (gameweeks (generate_gameweeks_from_matches (generate_gameweeks_from_matches db))) =
     map gameweek_fields (gameweeks (generate_gameweeks_from_matches db))"
    by (simp add: generate_fields generate_matches)
  show "real_matches (generate_gameweeks_from_matches db) = real_matches db"
    by (rule generate_matches)
  show "map fst (map gameweek_fields (gameweeks (generate_gameweeks_from_matches db))) =
     sort (remdups (map rm_gameweek (filter (\<lambda>m. match_date m \<noteq> None) (real_matches db))))"
    by (simp only: generate_fields gameweek_groups_numbers)
next
  fix g assume "g \<in> set (gameweeks (generate_gameweeks_from_matches db))"
  then have "gameweek_fields g \<in> set (map gameweek_fields (gameweeks (generate_gameweeks_from_matches db)))"
    by simp
  then have "(gameweek_number g, start_date g, end_date g, status g) \<in> set (gameweek_groups (real_matches db))"
    by (simp only: generate_fields gameweek_fields_def)
  from gameweek_groups_row [OF this]
  show "match_days (real_matches db) (gameweek_number g) \<noteq> []"
    and "start_date g = Min (set (match_days (real_matches db) (gameweek_number g)))"
    and "end_date g = Max (set (match_days (real_matches db) (gameweek_number g)))"
    and "status g = (if \<forall>m \<in> set (dated_matches (real_matches db) (gameweek_number g)).
                       rm_status m = ''completed''
                  then ''finalized'' else ''upcoming'')"
    by simp_all
qed

theorem regenerate_idempotent_witness:
  "map gameweek_fields (gameweeks (generate_gameweeks_from_matches matches_scenario)) =
     [(1, 20104, 20105, ''finalized''), (2, 20111, 20112, ''upcoming'')] \<and>
   map gameweek_fields
     (gameweeks (generate_gameweeks_from_matches (generate_gameweeks_from_matches matches_scenario))) =
     [(1, 20104, 20105, ''finalized''), (2, 20111, 20112, ''upcoming'')] \<and>
   map gameweek_id (gameweeks (generate_gameweeks_from_matches matches_scenario)) = [2, 3] \<and>
   map gameweek_id
     (gameweeks (generate_gameweeks_from_matches (generate_gameweeks_from_matches matches_scenario))) =
     [4, 5]"
proof -
  have a: "map gameweek_fields (gameweeks (generate_gameweeks_from_matches matches_scenario)) =
     [(1, 20104, 20105, ''finalized''), (2, 20111, 20112, ''upcoming'')]"
    by code_simp
  have b: "map gameweek_id (gameweeks (generate_gameweeks_from_matches matches_scenario)) = [2, 3]"
    by code_simp
  have c: "map gameweek_id
     (gameweeks (generate_gameweeks_from_matches (generate_gameweeks_from_matches matches_scenario))) =
     [4, 5]"
    by code_simp
  from regenerate_idempotent [of matches_scenario] a b c show ?thesis
    by simp
qed

section \<open>Ranks after finalization\<close>

lemma update_rank_in_league_eq:
  "update_rank_in_league tbl ranked gw =
     map (\<lambda>row. if tgp_gameweek row = gw then assign_rank ranked row else row) tbl"
  by (simp add: update_rank_in_league_def assign_rank_def)

lemma assign_rank_data [simp]:
  "tgp_fantasy_team_id (assign_rank ranked row) = tgp_fantasy_team_id row"
  "tgp_gameweek (assign_rank ranked row) = tgp_gameweek row"
  "points (assign_rank ranked row) = points row"
  by (simp_all add: assign_rank_def split: option.splits)

lemma upto_nth_from_one: "i < n \<Longrightarrow> [1 .. int n] ! i = int i + 1"
  by (simp add: nth_upto)

lemma length_upto_from_one: "length [1 .. int n] = n"
  by simp

text \<open>The rank a row receives is its place in the sorted list.\<close>

lemma assign_rank_place:
  assumes ds: "distinct (map tgp_fantasy_team_id srt)" and i: "i < length srt"
  shows "rank_in_league
           (assign_rank (zip (map tgp_fantasy_team_id srt) [1 .. int (length srt)]) (srt ! i)) =
         Some (int i + 1)"
proof -
  let ?ts = "map tgp_fantasy_team_id srt"
  have "map_of (zip ?ts [1 .. int (length srt)]) (?ts ! i) = Some ([1 .. int (length srt)] ! i)"
    using ds i by (intro map_of_zip_nth) simp_all
  with i have "map_of (zip ?ts [1 .. int (length srt)]) (tgp_fantasy_team_id (srt ! i)) = Some (int i + 1)"
    by (simp add: upto_nth_from_one)
  then show ?thesis
    by (simp add: assign_rank_def)
qed

lemma ranked_rows:
  fixes recs srt :: "team_gameweek_points list"
  assumes d: "distinct (map tgp_fantasy_team_id recs)"
    and s: "set srt = set recs"
    and ds: "distinct (map tgp_fantasy_team_id srt)"
    and so: "sorted (map (\<lambda>row. desc_key (points row)) srt)"
    and nn: "\<forall>row \<in> set recs. points row \<noteq> None"
  defines "ranked \<equiv> zip (map tgp_fantasy_team_id srt) [1 .. int (length srt)]"
  shows "length srt = length recs"
    and "distinct (map (\<lambda>row. rank_in_league (assign_rank ranked row)) recs)"
    and "set (map (\<lambda>row. rank_in_league (assign_rank ranked row)) recs) = Some ` {1 .. int (length recs)}"
    and "\<forall>r1 \<in> set recs. \<forall>r2 \<in> set recs.
           rank_in_league (assign_rank ranked r1) < rank_in_league (assign_rank ranked r2) \<longrightarrow>
           points r2 \<le> points r1"
proof -
  from d have dr: "distinct recs" by (rule distinct_map [THEN iffD1, THEN conjunct1])
  from ds have dsr: "distinct srt" by (rule distinct_map [THEN iffD1, THEN conjunct1])
  show len: "length srt = length recs"
    using dr dsr s by (metis distinct_card)
  have place: "\<exists>i < length srt. srt ! i = row \<and> rank_in_league (assign_rank ranked row) = Some (int i + 1)"
    if "row \<in> set recs" for row
  proof -
    from that s have "row \<in> set srt" by simp
    then obtain i where i: "i < length srt" "srt ! i = row"
      by (auto simp: in_set_conv_nth)
    with assign_rank_place [OF ds i(1)] show ?thesis
      unfolding ranked_def by auto
  qed
  have "inj_on (\<lambda>row. rank_in_league (assign_rank ranked row)) (set recs)"
  proof (rule inj_onI)
    fix a b assume a: "a \<in> set recs" and b: "b \<in> set recs"
      and e: "rank_in_league (assign_rank ranked a) = rank_in_league (assign_rank ranked b)"
    from place [OF a] place [OF b] e show "a = b" by auto
  qed
  with dr show "distinct (map (\<lambda>row. rank_in_league (assign_rank ranked row)) recs)"
    by (simp add: distinct_map)
  show "set (map (\<lambda>row. rank_in_league (assign_rank ranked row)) recs) = Some ` {1 .. int (length recs)}"
  proof (intro set_eqI iffI)
    fix x assume "x \<in> set (map (\<lambda>row. rank_in_league (assign_rank ranked row)) recs)"
    then obtain row where "row \<in> set recs" "x = rank_in_league (assign_rank ranked row)"
      by auto
    with place [of row] len show "x \<in> Some ` {1 .. int (length recs)}"
      by auto
  next
    fix x assume "x \<in> Some ` {1 .. int (length recs)}"
    then obtain k where k: "x = Some k" "1 \<le> k" "k \<le> int (length recs)" by auto
    define i where "i = nat (k - 1)"
    from k len have i: "i < length srt" "int i + 1 = k" by (simp_all add: i_def)
    with s have m: "srt ! i \<in> set recs" by (metis nth_mem)
    from place [OF m] obtain j where j: "j < length srt" "srt ! j = srt ! i"
      "rank_in_league (assign_rank ranked (srt ! i)) = Some (int j + 1)" by blast
    from j(1,2) i(1) dsr have "j = i" by (simp add: nth_eq_iff_index_eq)
    with j(3) i(2) k(1) have "rank_in_league (assign_rank ranked (srt ! i)) = x" by simp
    with m show "x \<in> set (map (\<lambda>row. rank_in_league (assign_rank ranked row)) recs)"
      by force
  qed
  show "\<forall>r1 \<in> set recs. \<forall>r2 \<in> set recs.
           rank_in_league (assign_rank ranked r1) < rank_in_league (assign_rank ranked r2) \<longrightarrow>
           points r2 \<le> points r1"
  proof (intro ballI impI)
    fix r1 r2 assume r1: "r1 \<in> set recs" and r2: "r2 \<in> set recs"
      and lt: "rank_in_league (assign_rank ranked r1) < rank_in_league (assign_rank ranked r2)"
    from place [OF r1] obtain i1 where i1: "i1 < length srt" "srt ! i1 = r1"
      "rank_in_league (assign_rank ranked r1) = Some (int i1 + 1)" by blast
    from place [OF r2] obtain i2 where i2: "i2 < length srt" "srt ! i2 = r2"
      "rank_in_league (assign_rank ranked r2) = Some (int i2 + 1)" by blast
    from lt i1(3) i2(3) have "i1 \<le> i2" by simp
    with so i2(1) have "map (\<lambda>row. desc_key (points row)) srt ! i1 \<le>
                        map (\<lambda>row. desc_key (points row)) srt ! i2"
      by (intro sorted_nth_mono) simp_all
    with i1 i2 have "desc_key (points r1) \<le> desc_key (points r2)" by simp
    moreover from nn r1 have "points r1 \<noteq> None" by blast
    moreover from nn r2 have "points r2 \<noteq> None" by blast
    ultimately show "points r2 \<le> points r1" by (auto simp: desc_key_def)
  qed
qed

lemma ranked_teams_eq:
  "ranked_teams ro db league gw =
     zip (map tgp_fantasy_team_id
            (map fst (sort_key (\<lambda>(ftgp, ft). desc_key (points ftgp))
                        (ranked_order ro (joined_rows db league gw)))))
         [1 .. int (length (map fst (sort_key (\<lambda>(ftgp, ft). desc_key (points ftgp))
                                       (ranked_order ro (joined_rows db league gw)))))]"
  by (simp add: ranked_teams_def joined_rows_def Let_def split_def o_def)

text \<open>What the sort is handed has the rows of the query, each once.\<close>

lemma permuting_set: "permuting ro \<Longrightarrow> set (ranked_order ro rows) = set rows"
  unfolding permuting_def by (metis mset_eq_setD)

lemma permuting_distinct_map:
  assumes "permuting ro"
  shows "distinct (map f (ranked_order ro rows)) \<longleftrightarrow> distinct (map f rows)"
proof -
  from assms have "mset (ranked_order ro rows) = mset rows"
    by (simp add: permuting_def)
  then have "mset (map f (ranked_order ro rows)) = mset (map f rows)"
    by simp
  then show ?thesis
    by (rule mset_eq_imp_distinct_iff)
qed

lemma length_filter_key:
  "distinct (map k xs) \<Longrightarrow>
     length (filter (\<lambda>x. v = k x \<and> Q x) xs) = (if \<exists>x \<in> set xs. v = k x \<and> Q x then 1 else 0)"
proof (induction xs)
  case Nil
  show ?case by simp
next
  case (Cons a xs)
  from Cons.prems have d: "distinct (map k xs)" and n: "k a \<notin> k ` set xs" by simp_all
  show ?case
  proof (cases "v = k a")
    case True
    with n have "\<forall>x \<in> set xs. v \<noteq> k x" by (metis imageI)
    then have "filter (\<lambda>x. v = k x \<and> Q x) xs = []" by (simp add: filter_empty_conv)
    with True \<open>\<forall>x \<in> set xs. v \<noteq> k x\<close> show ?thesis by auto
  next
    case False
    with Cons.IH [OF d] show ?thesis by simp
  qed
qed

lemma inner_join_Cons:
  "inner_join (x # xs) ys c = map (Pair x) (filter (c x) ys) @ inner_join xs ys c"
  by (simp add: inner_join_def)

lemma joined_rows_fst:
  assumes "distinct (map fantasy_team_id (fantasy_teams db))"
  shows "map fst (joined_rows db league gw) = league_records db league gw"
proof -
  let ?fts = "fantasy_teams db"
  let ?W = "\<lambda>(ftgp, ft). league_id ft = Some league \<and> tgp_gameweek ftgp = gw"
  let ?c = "\<lambda>ftgp ft. tgp_fantasy_team_id ftgp = fantasy_team_id ft"
  let ?P = "\<lambda>row. tgp_gameweek row = gw \<and> tgp_fantasy_team_id row \<in> set (league_members db league)"
  have one: "map fst (filter ?W (map (Pair r) (filter (?c r) ?fts))) = (if ?P r then [r] else [])" for r
  proof -
    have "map fst (filter ?W (map (Pair r) (filter (?c r) ?fts))) =
            replicate (length (filter (\<lambda>ft. tgp_fantasy_team_id r = fantasy_team_id ft \<and>
                          (league_id ft = Some league \<and> tgp_gameweek r = gw)) ?fts)) r"
      by (simp add: filter_map o_def map_replicate_const conj_commute)
    also have "\<dots> = replicate (if \<exists>ft \<in> set ?fts. tgp_fantasy_team_id r = fantasy_team_id ft \<and>
                          (league_id ft = Some league \<and> tgp_gameweek r = gw) then 1 else 0) r"
      by (simp only: length_filter_key [OF assms])
    also have "\<dots> = (if ?P r then [r] else [])"
      by (auto simp: league_members_def)
    finally show ?thesis .
  qed
  have "map fst (filter ?W (inner_join tbl ?fts ?c)) = filter ?P tbl" for tbl
    by (induction tbl) (simp_all add: inner_join_Cons one, simp add: inner_join_def)
  then show ?thesis
    by (simp add: joined_rows_def league_records_def)
qed

lemma distinct_teams_of_gameweek:
  "distinct (map tgp_key tbl) \<Longrightarrow>
     distinct (map tgp_fantasy_team_id (filter (\<lambda>row. tgp_gameweek row = gw \<and> Q row) tbl))"
proof (induction tbl)
  case Nil
  show ?case by simp
next
  case (Cons a tbl)
  from Cons.prems have d: "distinct (map tgp_key tbl)" and n: "tgp_key a \<notin> tgp_key ` set tbl"
    by simp_all
  have "tgp_fantasy_team_id a \<noteq> tgp_fantasy_team_id row"
    if "tgp_gameweek a = gw" "row \<in> set tbl" "tgp_gameweek row = gw" for row
  proof
    assume "tgp_fantasy_team_id a = tgp_fantasy_team_id row"
    with that have "tgp_key a = tgp_key row" by (simp add: tgp_key_def)
    with that(2) n show False by (metis imageI)
  qed
  with Cons.IH [OF d] show ?case by auto
qed

lemma league_records_distinct:
  "well_formed db \<Longrightarrow> distinct (map tgp_fantasy_team_id (league_records db league gw))"
  by (simp add: well_formed_def league_records_def distinct_teams_of_gameweek)

lemma league_members_of_data:
  "league_members db league =
     map fst (filter (\<lambda>(i, l, tp, gp). l = Some league) (map ft_data (fantasy_teams db)))"
  by (simp add: league_members_def filter_map o_def ft_data_def)

lemma league_step_members: "league_members (league_step ro gw db l) league = league_members db league"
  by (simp add: league_members_of_data league_step_ft_data)

lemma league_step_points_table:
  "fantasy_team_gameweek_points (league_step ro gw db l) =
     update_rank_in_league (fantasy_team_gameweek_points db) (ranked_teams ro db l gw) gw"
  by (simp add: league_step_def Let_def)

lemma league_members_subset: "set (league_members db league) \<subseteq> set (league_team_ids db)"
  by (auto simp: league_members_def league_team_ids_def)

lemma league_step_well_formed: "well_formed db \<Longrightarrow> well_formed (league_step ro gw db l)"
  by (simp add: well_formed_def keys_of_data ids_of_data league_step_tgp_data league_step_ft_data)

lemma league_step_complete: "complete db gw \<Longrightarrow> complete (league_step ro gw' db l) gw"
  by (simp add: complete_def points_records_of_data league_team_ids_of_data
      league_step_tgp_data league_step_ft_data)

text \<open>The records of a league, as the completed first loop leaves them.\<close>

lemma complete_records:
  assumes c: "complete db gw" and wf: "well_formed db"
  shows "tgp_fantasy_team_id ` set (league_records db league gw) = set (league_members db league)"
    and "\<forall>row \<in> set (league_records db league gw). points row \<noteq> None"
    and "length (league_records db league gw) = length (league_members db league)"
proof -
  have rec: "\<exists>v. points_records db t gw = [Some v]" if "t \<in> set (league_members db league)" for t
    using that c league_members_subset [of db league] by (auto simp: complete_def)
  show img: "tgp_fantasy_team_id ` set (league_records db league gw) = set (league_members db league)"
  proof (intro set_eqI iffI)
    fix t assume "t \<in> tgp_fantasy_team_id ` set (league_records db league gw)"
    then show "t \<in> set (league_members db league)" by (auto simp: league_records_def)
  next
    fix t assume t: "t \<in> set (league_members db league)"
    from rec [OF t] have "records_of (fantasy_team_gameweek_points db) t gw \<noteq> []"
      by (auto simp: points_records_eq)
    then obtain row where "row \<in> set (fantasy_team_gameweek_points db)"
      "tgp_fantasy_team_id row = t" "tgp_gameweek row = gw"
      by (auto simp: records_of_def filter_empty_conv)
    with t show "t \<in> tgp_fantasy_team_id ` set (league_records db league gw)"
      by (force simp: league_records_def)
  qed
  show "\<forall>row \<in> set (league_records db league gw). points row \<noteq> None"
  proof
    fix row assume r: "row \<in> set (league_records db league gw)"
    then have t: "tgp_fantasy_team_id row \<in> set (league_members db league)"
      and m: "row \<in> set (records_of (fantasy_team_gameweek_points db) (tgp_fantasy_team_id row) gw)"
      by (auto simp: league_records_def records_of_def)
    from m have "points row \<in> set (points_records db (tgp_fantasy_team_id row) gw)"
      by (simp add: points_records_eq)
    with rec [OF t] show "points row \<noteq> None" by auto
  qed
  from wf have "distinct (league_members db league)"
    by (simp add: well_formed_def league_members_def distinct_map_filter)
  then have "length (league_members db league) = card (set (league_members db league))"
    by (simp add: distinct_card)
  moreover have "length (league_records db league gw) =
                 card (tgp_fantasy_team_id ` set (league_records db league gw))"
    using league_records_distinct [OF wf, of league gw]
    by (metis distinct_card length_map set_map)
  ultimately show "length (league_records db league gw) = length (league_members db league)"
    by (simp add: img)
qed

lemma filter_map_fixed:
  assumes "\<And>x. P (f x) \<longleftrightarrow> P x"
  shows "filter P (map f xs) = map f (filter P xs)"
  by (induction xs) (simp_all add: assms)

lemma league_step_records_own:
  "league_records (league_step ro gw db l) l gw =
     map (assign_rank (ranked_teams ro db l gw)) (league_records db l gw)"
proof -
  let ?P = "\<lambda>row. tgp_gameweek row = gw \<and> tgp_fantasy_team_id row \<in> set (league_members db l)"
  let ?f = "\<lambda>row. if tgp_gameweek row = gw then assign_rank (ranked_teams ro db l gw) row else row"
  have "filter ?P (map ?f (fantasy_team_gameweek_points db)) =
          map ?f (filter ?P (fantasy_team_gameweek_points db))"
    by (rule filter_map_fixed) simp
  also have "\<dots> = map (assign_rank (ranked_teams ro db l gw)) (filter ?P (fantasy_team_gameweek_points db))"
    by (rule map_cong) simp_all
  finally show ?thesis
    by (simp add: league_records_def league_step_members league_step_points_table
        update_rank_in_league_eq)
qed

lemma joined_rows_mem:
  "(row, ft) \<in> set (joined_rows db l gw) \<longleftrightarrow>
     row \<in> set (fantasy_team_gameweek_points db) \<and> ft \<in> set (fantasy_teams db) \<and>
     tgp_fantasy_team_id row = fantasy_team_id ft \<and> league_id ft = Some l \<and> tgp_gameweek row = gw"
  by (simp add: joined_rows_def set_inner_join)

lemma league_members_mem:
  "t \<in> set (league_members db l) \<longleftrightarrow>
     (\<exists>ft \<in> set (fantasy_teams db). league_id ft = Some l \<and> fantasy_team_id ft = t)"
  by (simp add: league_members_def image_iff) blast

lemma ranked_teams_members:
  assumes pm: "permuting ro"
  shows "fst ` set (ranked_teams ro db l gw) \<subseteq> set (league_members db l)"
proof
  fix t assume "t \<in> fst ` set (ranked_teams ro db l gw)"
  then obtain k where "(t, k) \<in> set (ranked_teams ro db l gw)" by auto
  then have "t \<in> set (map tgp_fantasy_team_id
       (map fst (sort_key (\<lambda>(ftgp, ft). desc_key (points ftgp))
                   (ranked_order ro (joined_rows db l gw)))))"
    unfolding ranked_teams_eq by (rule set_zip_leftD)
  then have "t \<in> (\<lambda>p. tgp_fantasy_team_id (fst p)) ` set (joined_rows db l gw)"
    by (simp add: image_image permuting_set [OF pm])
  then obtain p where p: "p \<in> set (joined_rows db l gw)" "t = tgp_fantasy_team_id (fst p)"
    by blast
  obtain row ft where rf: "p = (row, ft)" by (cases p)
  from p rf have "ft \<in> set (fantasy_teams db)" "league_id ft = Some l" "fantasy_team_id ft = t"
    by (simp_all add: joined_rows_mem)
  then show "t \<in> set (league_members db l)"
    unfolding league_members_mem by blast
qed

lemma league_members_disjoint:
  assumes "well_formed db" and "l \<noteq> l'"
  shows "set (league_members db l) \<inter> set (league_members db l') = {}"
proof -
  from assms(1) have inj: "inj_on fantasy_team_id (set (fantasy_teams db))"
    by (simp add: well_formed_def distinct_map)
  have False if "t \<in> set (league_members db l)" "t \<in> set (league_members db l')" for t
  proof -
    from that(1) obtain ft where ft: "ft \<in> set (fantasy_teams db)" "league_id ft = Some l"
      "fantasy_team_id ft = t" unfolding league_members_mem by blast
    from that(2) obtain ft' where ft': "ft' \<in> set (fantasy_teams db)" "league_id ft' = Some l'"
      "fantasy_team_id ft' = t" unfolding league_members_mem by blast
    from inj ft(1) ft'(1) ft(3) ft'(3) have "ft = ft'" by (simp add: inj_on_def)
    with ft(2) ft'(2) assms(2) show False by simp
  qed
  then show ?thesis by blast
qed

lemma league_step_records_other:
  assumes pm: "permuting ro" and wf: "well_formed db" and ne: "l \<noteq> l'"
  shows "league_records (league_step ro gw db l') l gw = league_records db l gw"
proof -
  let ?P = "\<lambda>row. tgp_gameweek row = gw \<and> tgp_fantasy_team_id row \<in> set (league_members db l)"
  let ?f = "\<lambda>row. if tgp_gameweek row = gw then assign_rank (ranked_teams ro db l' gw) row else row"
  have fixed: "assign_rank (ranked_teams ro db l' gw) row = row"
    if "tgp_fantasy_team_id row \<in> set (league_members db l)" for row
  proof -
    from that league_members_disjoint [OF wf ne] ranked_teams_members [OF pm, of db l' gw]
    have "tgp_fantasy_team_id row \<notin> fst ` set (ranked_teams ro db l' gw)" by blast
    then have "map_of (ranked_teams ro db l' gw) (tgp_fantasy_team_id row) = None"
      by (simp add: map_of_eq_None_iff)
    then show ?thesis by (simp add: assign_rank_def)
  qed
  have "filter ?P (map ?f (fantasy_team_gameweek_points db)) =
          map ?f (filter ?P (fantasy_team_gameweek_points db))"
    by (rule filter_map_fixed) simp
  also have "\<dots> = map (\<lambda>row. row) (filter ?P (fantasy_team_gameweek_points db))"
    by (rule map_cong) (simp_all add: fixed)
  finally show ?thesis
    by (simp add: league_records_def league_step_members league_step_points_table
        update_rank_in_league_eq)
qed

lemma league_step_ranked_ok_other:
  assumes "permuting ro" and "well_formed db" and "l \<noteq> l'" and "ranked_ok db l gw"
  shows "ranked_ok (league_step ro gw db l') l gw"
  using assms(4)
  by (simp add: ranked_ok_def league_step_records_other [OF assms(1,2,3)] league_step_members)

lemma league_step_ranked_ok_own:
  assumes pm: "permuting ro" and wf: "well_formed db" and c: "complete db gw"
  shows "ranked_ok (league_step ro gw db l) l gw"
proof -
  let ?recs = "league_records db l gw"
  let ?srt = "map fst (sort_key (\<lambda>(ftgp, ft). desc_key (points ftgp))
                         (ranked_order ro (joined_rows db l gw)))"
  from wf have d1: "distinct (map fantasy_team_id (fantasy_teams db))"
    by (simp add: well_formed_def)
  have fst_rows: "map fst (joined_rows db l gw) = ?recs"
    using d1 by (rule joined_rows_fst)
  have d: "distinct (map tgp_fantasy_team_id ?recs)"
    using wf by (rule league_records_distinct)
  have s: "set ?srt = set ?recs"
    by (simp add: fst_rows [symmetric] permuting_set [OF pm])
  have "distinct (map (\<lambda>x. tgp_fantasy_team_id (fst x)) (joined_rows db l gw))"
    using d by (simp add: fst_rows [symmetric] o_def)
  then have "distinct (map (\<lambda>x. tgp_fantasy_team_id (fst x)) (ranked_order ro (joined_rows db l gw)))"
    by (simp only: permuting_distinct_map [OF pm])
  then have ds: "distinct (map tgp_fantasy_team_id ?srt)"
    by (simp add: distinct_map o_def)
  have "sorted (map (\<lambda>(ftgp, ft). desc_key (points ftgp))
                  (sort_key (\<lambda>(ftgp, ft). desc_key (points ftgp))
                     (ranked_order ro (joined_rows db l gw))))"
    by (rule sorted_sort_key)
  then have so: "sorted (map (\<lambda>row. desc_key (points row)) ?srt)"
    by (simp add: o_def split_def)
  note cr = complete_records [OF c wf, of l]
  note rr = ranked_rows [OF d s ds so cr(2)]
  show ?thesis
    unfolding ranked_ok_def league_step_records_own league_step_members ranked_teams_eq
    using rr cr(2,3) by (simp add: o_def)
qed

lemma league_loop_ranked_ok:
  assumes pm: "permuting ro"
  shows "well_formed db \<Longrightarrow> complete db gw \<Longrightarrow> l \<in> set ls \<or> ranked_ok db l gw \<Longrightarrow>
           ranked_ok (foldl (league_step ro gw) db ls) l gw"
proof (induction ls arbitrary: db)
  case Nil
  then show ?case by simp
next
  case (Cons a ls)
  have wf: "well_formed (league_step ro gw db a)"
    using Cons.prems(1) by (rule league_step_well_formed)
  have c: "complete (league_step ro gw db a) gw"
    using Cons.prems(2) by (rule league_step_complete)
  have "l \<in> set ls \<or> ranked_ok (league_step ro gw db a) l gw"
  proof (cases "a = l")
    case True
    with Cons.prems(1,2) show ?thesis by (simp add: league_step_ranked_ok_own [OF pm])
  next
    case False
    with Cons.prems show ?thesis by (auto simp: league_step_ranked_ok_other [OF pm])
  qed
  with Cons.IH [OF wf c] show ?case by simp
qed

lemma after_teams_well_formed:
  assumes "well_formed db"
  shows "well_formed (after_teams db gw)"
proof -
  from assms have d1: "distinct (map fantasy_team_id (fantasy_teams db))"
    and d2: "distinct (map tgp_key (fantasy_team_gameweek_points db))"
    by (simp_all add: well_formed_def)
  have "map fantasy_team_id (fantasy_teams (after_teams db gw)) =
          map fantasy_team_id (fantasy_teams db)"
    by (simp add: ids_of_data after_teams_ft_data [OF d1] credited_data o_def)
  moreover have "distinct (map tgp_key (fantasy_team_gameweek_points (after_teams db gw)))"
    unfolding after_teams_def using d2 by (rule team_loop_distinct)
  ultimately show ?thesis using d1 by (simp add: well_formed_def)
qed

lemma after_teams_league_team_ids:
  assumes "well_formed db"
  shows "league_team_ids (after_teams db gw) = league_team_ids db"
proof -
  from assms have d1: "distinct (map fantasy_team_id (fantasy_teams db))"
    by (simp add: well_formed_def)
  show ?thesis
    by (simp add: league_team_ids_of_data after_teams_ft_data [OF d1] credited_data
        filter_map o_def) (simp add: ft_data_def)
qed

lemma after_teams_complete:
  assumes "well_formed db"
  shows "complete (after_teams db gw) gw"
proof -
  from assms have d2: "distinct (map tgp_key (fantasy_team_gameweek_points db))"
    by (simp add: well_formed_def)
  have "points_records (after_teams db gw) t gw = [Some (calculate_fantasy_team_points db t gw)]"
    if "t \<in> set (league_team_ids db)" for t
    unfolding after_teams_def using that by (simp add: team_loop_points [OF d2 same_scores_refl])
  then show ?thesis
    by (simp add: complete_def after_teams_league_team_ids [OF assms])
qed

lemma league_ids_mem:
  "l \<in> set (league_ids db) \<longleftrightarrow> (\<exists>ft \<in> set (fantasy_teams db). league_id ft = Some l)"
proof
  assume "l \<in> set (league_ids db)"
  then obtain ft where "ft \<in> set (fantasy_teams db)" "league_id ft \<noteq> None" "l = the (league_id ft)"
    by (auto simp: league_ids_def)
  then show "\<exists>ft \<in> set (fantasy_teams db). league_id ft = Some l" by auto
next
  assume "\<exists>ft \<in> set (fantasy_teams db). league_id ft = Some l"
  then obtain ft where ft: "ft \<in> set (fantasy_teams db)" "league_id ft = Some l" by blast
  then have "the (league_id ft) \<in> (\<lambda>ft. the (league_id ft)) ` {ft \<in> set (fantasy_teams db). league_id ft \<noteq> None}"
    by blast
  with ft(2) show "l \<in> set (league_ids db)" by (simp add: league_ids_def)
qed

lemma ranked_ok_no_members:
  assumes "l \<notin> set (league_ids db)"
  shows "ranked_ok db l gw"
proof -
  from assms have "league_members db l = []"
    by (simp add: league_ids_mem league_members_def filter_empty_conv)
  then show ?thesis
    by (simp add: ranked_ok_def league_records_def)
qed

lemma ranked_ok_top:
  assumes ok: "ranked_ok db l gw"
    and r1: "r1 \<in> set (league_records db l gw)" and r2: "r2 \<in> set (league_records db l gw)"
    and top: "rank_in_league r1 = Some 1"
  shows "points r2 \<le> points r1"
proof -
  from ok r2 obtain k where k: "rank_in_league r2 = Some k" "1 \<le> k"
    unfolding ranked_ok_def by (metis (no_types, lifting) atLeastAtMost_iff imageE image_eqI set_map)
  show ?thesis
  proof (cases "k = 1")
    case True
    from ok have "inj_on rank_in_league (set (league_records db l gw))"
      by (simp add: ranked_ok_def distinct_map)
    with r1 r2 top k(1) True have "r1 = r2" by (simp add: inj_on_def)
    then show ?thesis by simp
  next
    case False
    with k top have "rank_in_league r1 < rank_in_league r2" by simp
    with ok r1 r2 show ?thesis by (simp add: ranked_ok_def)
  qed
qed

lemma finalize_gameweek_ranked_ok:
  assumes pm: "permuting ro"
    and ex: "\<exists>g \<in> set (gameweeks db). gameweek_number g = gw" and wf: "well_formed db"
  shows "ranked_ok (fst (finalize_gameweek ro db gw)) l gw"
proof -
  let ?db1 = "after_teams db gw"
  let ?db2 = "foldl (league_step ro gw) ?db1 (league_ids ?db1)"
  have "l \<in> set (league_ids ?db1) \<or> ranked_ok ?db1 l gw"
    using ranked_ok_no_members by blast
  with after_teams_well_formed [OF wf] after_teams_complete [OF wf]
  have "ranked_ok ?db2 l gw" by (rule league_loop_ranked_ok [OF pm])
  then show ?thesis
    by (simp add: finalize_gameweek_found [OF ex] ranked_ok_def league_records_def league_members_def)
qed

lemma finalize_gameweek_league_team_ids:
  assumes ex: "\<exists>g \<in> set (gameweeks db). gameweek_number g = gw" and wf: "well_formed db"
  shows "league_team_ids (fst (finalize_gameweek ro db gw)) = league_team_ids db"
proof -
  have "league_team_ids (fst (finalize_gameweek ro db gw)) = league_team_ids (after_teams db gw)"
    by (simp add: league_team_ids_of_data finalize_gameweek_facts(4) [OF ex])
  then show ?thesis by (simp add: after_teams_league_team_ids [OF wf])
qed

text \<open>
  Claim C4, as amended. After \<open>finalize_gameweek\<close> has succeeded on well-formed tables,
  every team of a league has exactly one points record of the gameweek, and in each
  league the ranks of those records are pairwise different and are exactly the numbers
  from 1 to the number of teams; a record with a lower rank never has fewer points than
  one with a higher rank, and the record of rank 1 has the most points. This holds in
  whatever order the engine hands the rows to the sort. Which of several teams with
  equal points gets the lower rank is that order's doing and not fixed by the code.
\<close>

theorem ranks_after_finalize:
  assumes pm: "permuting ro"
    and wf: "well_formed db" and ex: "\<exists>g \<in> set (gameweeks db). gameweek_number g = gw"
  shows "let db' = fst (finalize_gameweek ro db gw);
             members = league_members db' league;
             recs = league_records db' league gw
         in snd (finalize_gameweek ro db gw) = None \<and>
            (\<forall>t \<in> set members. length (points_records db' t gw) = 1) \<and>
            length recs = length members \<and>
            distinct (map rank_in_league recs) \<and>
            set (map rank_in_league recs) = Some ` {1 .. int (length members)} \<and>
            (\<forall>row \<in> set recs. points row \<noteq> None) \<and>
            (\<forall>r1 \<in> set recs. \<forall>r2 \<in> set recs.
               rank_in_league r1 < rank_in_league r2 \<longrightarrow> points r2 \<le> points r1) \<and>
            (\<forall>r1 \<in> set recs. \<forall>r2 \<in> set recs.
               rank_in_league r1 = Some 1 \<longrightarrow> points r2 \<le> points r1)"
proof -
  let ?db' = "fst (finalize_gameweek ro db gw)"
  have ok: "ranked_ok ?db' league gw"
    using pm ex wf by (rule finalize_gameweek_ranked_ok)
  have one: "length (points_records ?db' t gw) = 1" if "t \<in> set (league_members ?db' league)" for t
  proof -
    from that league_members_subset [of ?db' league]
    have "t \<in> set (league_team_ids db)"
      by (auto simp: finalize_gameweek_league_team_ids [OF ex wf])
    with finalize_gameweek_points_records [OF ex wf] show ?thesis by simp
  qed
  have top: "\<forall>r1 \<in> set (league_records ?db' league gw). \<forall>r2 \<in> set (league_records ?db' league gw).
               rank_in_league r1 = Some 1 \<longrightarrow> points r2 \<le> points r1"
    using ranked_ok_top [OF ok] by blast
  from ok have parts:
    "length (league_records ?db' league gw) = length (league_members ?db' league)"
    "distinct (map rank_in_league (league_records ?db' league gw))"
    "set (map rank_in_league (league_records ?db' league gw)) =
       Some ` {1 .. int (length (league_members ?db' league))}"
    "\<forall>row \<in> set (league_records ?db' league gw). points row \<noteq> None"
    "\<forall>r1 \<in> set (league_records ?db' league gw). \<forall>r2 \<in> set (league_records ?db' league gw).
        rank_in_league r1 < rank_in_league r2 \<longrightarrow> points r2 \<le> points r1"
    by (simp_all add: ranked_ok_def)
  show ?thesis
    unfolding Let_def
    using finalize_gameweek_facts(1) [OF ex] one top parts by blast
qed

lemma permuting_stored_orders: "permuting stored_orders"
  by (simp add: permuting_def stored_orders_def)

lemma permuting_reversed_orders: "permuting reversed_orders"
  by (simp add: permuting_def reversed_orders_def)

theorem ranks_after_finalize_witness:
  "permuting stored_orders \<and> well_formed finalize_scenario \<and>
   league_members (fst (finalize_gameweek stored_orders finalize_scenario 1)) 1 = [1, 2] \<and>
   map tgp_fantasy_team_id
     (league_records (fst (finalize_gameweek stored_orders finalize_scenario 1)) 1 1) = [1, 2] \<and>
   map points
     (league_records (fst (finalize_gameweek stored_orders finalize_scenario 1)) 1 1) =
     [Some 12, Some 18] \<and>
   map rank_in_league
     (league_records (fst (finalize_gameweek stored_orders finalize_scenario 1)) 1 1) =
     [Some 2, Some 1] \<and>
   set (map rank_in_league
          (league_records (fst (finalize_gameweek stored_orders finalize_scenario 1)) 1 1)) =
     Some ` {1 .. int (length (league_members
                                 (fst (finalize_gameweek stored_orders finalize_scenario 1)) 1))}"
proof -
  note pm = permuting_stored_orders
  have wf: "well_formed finalize_scenario"
    by code_simp
  have ex: "\<exists>g \<in> set (gameweeks finalize_scenario). gameweek_number g = 1"
    by code_simp
  have m: "league_members (fst (finalize_gameweek stored_orders finalize_scenario 1)) 1 = [1, 2]"
    by code_simp
  have t: "map tgp_fantasy_team_id
             (league_records (fst (finalize_gameweek stored_orders finalize_scenario 1)) 1 1) = [1, 2]"
    by code_simp
  have p: "map points
             (league_records (fst (finalize_gameweek stored_orders finalize_scenario 1)) 1 1) =
             [Some 12, Some 18]"
    by code_simp
  have r: "map rank_in_league
             (league_records (fst (finalize_gameweek stored_orders finalize_scenario 1)) 1 1) =
             [Some 2, Some 1]"
    by code_simp
  from ranks_after_finalize [OF pm wf ex, of 1]
  have "set (map rank_in_league
          (league_records (fst (finalize_gameweek stored_orders finalize_scenario 1)) 1 1)) =
     Some ` {1 .. int (length (league_members
                                 (fst (finalize_gameweek stored_orders finalize_scenario 1)) 1))}"
    by (simp only: Let_def)
  with pm wf m t p r show ?thesis
    by (simp only: simp_thms)
qed

text \<open>
  Against claim C4 as stated, which has ties broken deterministically: teams 1 and 2
  both score 20 in gameweek 1. On the same tables, an engine that hands the rows over
  in stored order ranks team 1 first, and one that hands them over in reverse ranks
  team 2 first; the code names no tie-break that would decide between them.
\<close>

theorem tie_order_counterexample:
  "permuting stored_orders \<and> permuting reversed_orders \<and>
   map tgp_fantasy_team_id
     (league_records (fst (finalize_gameweek stored_orders tie_scenario 1)) 1 1) = [1, 2] \<and>
   map points
     (league_records (fst (finalize_gameweek stored_orders tie_scenario 1)) 1 1) =
     [Some 20, Some 20] \<and>
   map rank_in_league
     (league_records (fst (finalize_gameweek stored_orders tie_scenario 1)) 1 1) =
     [Some 1, Some 2] \<and>
   map tgp_fantasy_team_id
     (league_records (fst (finalize_gameweek reversed_orders tie_scenario 1)) 1 1) = [1, 2] \<and>
   map points
     (league_records (fst (finalize_gameweek reversed_orders tie_scenario 1)) 1 1) =
     [Some 20, Some 20] \<and>
   map rank_in_league
     (league_records (fst (finalize_gameweek reversed_orders tie_scenario 1)) 1 1) =
     [Some 2, Some 1]"
proof -
  have "map tgp_fantasy_team_id
     (league_records (fst (finalize_gameweek stored_orders tie_scenario 1)) 1 1) = [1, 2]"
    by code_simp
  moreover have "map points
     (league_records (fst (finalize_gameweek stored_orders tie_scenario 1)) 1 1) =
     [Some 20, Some 20]"
    by code_simp
  moreover have "map rank_in_league
     (league_records (fst (finalize_gameweek stored_orders tie_scenario 1)) 1 1) =
     [Some 1, Some 2]"
    by code_simp
  moreover have "map tgp_fantasy_team_id
     (league_records (fst (finalize_gameweek reversed_orders tie_scenario 1)) 1 1) = [1, 2]"
    by code_simp
  moreover have "map points
     (league_records (fst (finalize_gameweek reversed_orders tie_scenario 1)) 1 1) =
     [Some 20, Some 20]"
    by code_simp
  moreover have "map rank_in_league
     (league_records (fst (finalize_gameweek reversed_orders tie_scenario 1)) 1 1) =
     [Some 2, Some 1]"
    by code_simp
  ultimately show ?thesis
    using permuting_stored_orders permuting_reversed_orders by (simp only: simp_thms)
qed

end
